theory Spec2Isabelle
  imports Main "HOL-Library.Word"
begin

section \<open>The complaint-tracking server (server.js)\<close>

text \<open>
  The server is an Express application over six Mongoose models. Each route handler is
  embedded as a function from the request and the database state to the HTTP response and
  the new state. Handlers run one at a time: the interleaving of two requests is outside
  this development.

  Conventions of the embedding:
  \<^item> the fields of a signup body, which the handlers themselves test (\<open>!x\<close>, \<open>endsWith\<close>,
    \<open>===\<close>), are JSON values of any kind: \<open>json\<close>; a field of the other bodies is a
    string or is absent (\<open>undefined\<close> / \<open>null\<close>): \<open>string option\<close>; multipart form fields
    are always strings;
  \<^item> a collection is the list of its documents in insertion order; a \<open>findOne\<close> on one path
    with no sort returns the first document in that order that matches the filter; for the
    \<open>$or\<close> filter of the signup routes, over two indexed paths, which of several matching
    documents is returned is the store's choice and is taken from the environment;
  \<^item> a \<open>Date\<close> is its time value, the milliseconds since the epoch, as an \<open>int\<close>;
  \<^item> an \<open>ObjectId\<close> is a natural number drawn from a counter, so that every constructed
    document has an identifier no other document has;
  \<^item> what the JavaScript runtime and the libraries compute (bcrypt, the parsing of date
    strings, the base64 encoding of a buffer, Mongoose's cast of a value that is not a
    string) is not code of the server: the handlers take
    it from an environment \<open>env\<close>, and the properties of the handlers are proved for
    every environment.
\<close>

subsection \<open>Runtime environment\<close>

type_synonym byte = "8 word"
type_synonym objectId = nat
type_synonym date = int

text \<open>A value of a JSON request body, as \<open>express.json()\<close> parses it. \<open>JAbsent\<close> is a key
  that is missing or \<open>null\<close>; a number is taken as an integer.\<close>

datatype json =
    JAbsent
  | JStr string
  | JNum int
  | JBool bool
  | JArr "json list"
  | JObj "(string \<times> json) list"

record env =
  bcrypt_hash :: "string \<Rightarrow> string"
    \<comment> \<open>what \<open>bcrypt.hash(s, 10)\<close> resolves to for a string \<open>s\<close> in this request\<close>
  bcrypt_compare :: "string \<Rightarrow> string \<Rightarrow> bool"
    \<comment> \<open>\<open>bcrypt.compare(s, hash)\<close> for two strings\<close>
  newDate :: "string \<Rightarrow> date option"
    \<comment> \<open>\<open>new Date(s)\<close>; \<open>None\<close> is the Invalid Date\<close>
  castDate :: "string \<Rightarrow> date option"
    \<comment> \<open>Mongoose's cast of a non-empty string to the schema type Date; \<open>None\<close> is a cast error\<close>
  toBase64 :: "byte list \<Rightarrow> string"
    \<comment> \<open>\<open>buffer.toString("base64")\<close>\<close>
  castString :: "json \<Rightarrow> string option"
    \<comment> \<open>Mongoose's cast, to the schema type String, of a value of a new document that is not
        a string; \<open>None\<close> is a cast error\<close>
  castFilter :: "json \<Rightarrow> (string \<Rightarrow> bool) option"
    \<comment> \<open>what the clause \<open>{path: v}\<close> of a query tests on the stored string when \<open>v\<close> is not a
        string; \<open>None\<close> is a query that is rejected\<close>
  or_choice :: nat
    \<comment> \<open>which of the documents matching an \<open>$or\<close> filter the store returns in this request\<close>

subsection \<open>Documents and the database\<close>

record account =
  acc_id :: objectId
  acc_username :: string
  acc_email :: string
  acc_password :: string

record image =
  img_data :: "byte list"
  img_contentType :: string

record complaint =
  c_id :: objectId
  c_username :: string
  c_complaintText :: string
  c_date :: date
  c_location :: string
  c_subLocation :: "string option"
  c_roomNo :: "string option"
  c_image :: "image option"
  c_status :: "string option"
  c_createdAt :: date
  c_updatedAt :: date

record status_doc =
  st_id :: objectId
  st_complaintId :: objectId
  st_complaintText :: string
  st_location :: string
  st_subLocation :: "string option"
  st_status :: string
  st_updatedAt :: date

record event =
  ev_id :: objectId
  ev_date :: string
  ev_department :: string
  ev_title :: string
  ev_venue :: string
  ev_time :: string
  ev_timePeriod :: string
  ev_description :: "string option"
  ev_createdAt :: date
  ev_updatedAt :: date

record feedback =
  fb_id :: objectId
  fb_date :: string
  fb_description :: string
  fb_rating :: int
  fb_createdAt :: date
  fb_updatedAt :: date

record state =
  users :: "account list"
  admins :: "account list"
  complaints :: "complaint list"
  statuses :: "status_doc list"
  events :: "event list"
  feedbacks :: "feedback list"
  next_id :: objectId

definition init :: state where
  "init = \<lparr>users = [], admins = [], complaints = [], statuses = [], events = [],
            feedbacks = [], next_id = 0\<rparr>"

text \<open>Constructing a document (\<open>new Model(...)\<close>) draws its \<open>_id\<close>, whether or not the
  document is saved afterwards.\<close>

definition new_id :: "state \<Rightarrow> objectId \<times> state" where
  "new_id s = (next_id s, s\<lparr>next_id := Suc (next_id s)\<rparr>)"

subsection \<open>Requests and responses\<close>

record signup_body =
  sb_username :: json
  sb_email :: json
  sb_password :: json

record login_body =
  lb_username :: "string option"
  lb_password :: "string option"

record complaint_body =
  cb_username :: "string option"
  cb_complaintText :: "string option"
  cb_date :: "string option"
  cb_location :: "string option"
  cb_subLocation :: "string option"
  cb_roomNo :: "string option"
  cb_file :: "image option"
    \<comment> \<open>\<open>req.file\<close>: the buffer and the mimetype of the uploaded part\<close>

record event_body =
  eb_date :: "string option"
  eb_department :: "string option"
  eb_title :: "string option"
  eb_venue :: "string option"
  eb_time :: "string option"
  eb_timePeriod :: "string option"
  eb_description :: "string option"

record feedback_body =
  fbb_date :: "string option"
  fbb_description :: "string option"
  fbb_rating :: "int option"
    \<comment> \<open>the rating is taken as an integer JSON number, or absent\<close>

record complaint_view =
  cv_doc :: complaint
    \<comment> \<open>the spread \<open>...complaint._doc\<close>\<close>
  cv_image :: "string option"
    \<comment> \<open>the \<open>image\<close> key that overrides the document's\<close>

record populated =
  pop_complaintText :: string
  pop_location :: string
  pop_subLocation :: "string option"

record status_view =
  sv_doc :: status_doc
  sv_complaintId :: "populated option"
    \<comment> \<open>the populated reference; \<open>None\<close> when no complaint has that \<open>_id\<close>\<close>

datatype payload =
    JError string
  | JMessage string
  | JSuccess string
  | JFailure string
  | JComplaints "complaint_view list"
  | JStatuses "status_view list"
  | JEvents "event list"
  | JFeedbacks "feedback list"

text \<open>\<open>JError e\<close> is the body \<open>{error: e}\<close>, \<open>JMessage m\<close> is \<open>{message: m}\<close>,
  \<open>JSuccess m\<close> is \<open>{success: true, message: m}\<close> and \<open>JFailure e\<close> is
  \<open>{success: false, error: e}\<close>.\<close>

record response =
  code :: nat
  body :: payload

datatype error = ValidationError | CastError | DuplicateKeyError | IllegalArguments
  | DocumentNotFoundError | TypeError

subsection \<open>Queries and schema validation\<close>

definition findOne :: "('a \<Rightarrow> bool) \<Rightarrow> 'a list \<Rightarrow> 'a option" where
  "findOne P docs = List.find P docs"

text \<open>An equality filter \<open>{path: v}\<close> on a required string path. An absent \<open>v\<close> is sent as
  \<open>null\<close>, which matches only documents without the path: none, since the path is required.\<close>

fun eq_filter :: "string option \<Rightarrow> string \<Rightarrow> bool" where
  "eq_filter None stored = False"
| "eq_filter (Some v) stored = (stored = v)"

text \<open>The \<open>required\<close> validator of a String path: a string that is not empty.\<close>

fun required_string :: "string option \<Rightarrow> bool" where
  "required_string None = False"
| "required_string (Some v) = (v \<noteq> [])"

text \<open>JavaScript truthiness of a JSON value, as tested by \<open>!x\<close>: \<open>undefined\<close>, \<open>null\<close>,
  the empty string, \<open>0\<close> and \<open>false\<close> are falsy, every other value is truthy.\<close>

fun truthy :: "json \<Rightarrow> bool" where
  "truthy JAbsent = False"
| "truthy (JStr v) = (v \<noteq> [])"
| "truthy (JNum n) = (n \<noteq> 0)"
| "truthy (JBool t) = t"
| "truthy (JArr vs) = True"
| "truthy (JObj kvs) = True"

definition endsWith :: "string \<Rightarrow> string \<Rightarrow> bool" where
  "endsWith s suffix =
     (length suffix \<le> length s \<and> drop (length s - length suffix) s = suffix)"

text \<open>The cast of a field to the schema type Date: absent and the empty string become
  \<open>null\<close>, any other string is parsed.\<close>

definition cast_date_field :: "env \<Rightarrow> string option \<Rightarrow> error + date option" where
  "cast_date_field E v =
     (case v of
        None \<Rightarrow> Inr None
      | Some str \<Rightarrow>
          if str = [] then Inr None
          else (case castDate E str of None \<Rightarrow> Inl CastError | Some d \<Rightarrow> Inr (Some d)))"

text \<open>\<open>s.endsWith(suffix)\<close> on a JSON value: only a string has the method; on any other
  value the call throws.\<close>

fun js_endsWith :: "json \<Rightarrow> string \<Rightarrow> error + bool" where
  "js_endsWith (JStr v) suffix = Inr (endsWith v suffix)"
| "js_endsWith v suffix = Inl TypeError"

text \<open>The value of a String path of a new document: an absent value stays \<open>null\<close>, a string
  is kept, any other value is cast.\<close>

fun doc_string :: "env \<Rightarrow> json \<Rightarrow> error + string option" where
  "doc_string E JAbsent = Inr None"
| "doc_string E (JStr v) = Inr (Some v)"
| "doc_string E v = (case castString E v of None \<Rightarrow> Inl CastError | Some c \<Rightarrow> Inr (Some c))"

text \<open>Saving a new account: the schema's three required strings (a value that did not cast
  fails the validation too), then the unique indexes on \<open>username\<close> and \<open>email\<close>. The
  password is the hash, a string.\<close>

definition save_account ::
  "env \<Rightarrow> account list \<Rightarrow> objectId \<Rightarrow> json \<Rightarrow> json \<Rightarrow> string \<Rightarrow> error + account list" where
  "save_account E coll oid username email password =
     (case (doc_string E username, doc_string E email) of
        (Inr (Some u), Inr (Some e)) \<Rightarrow>
          if u = [] \<or> e = [] \<or> password = [] then Inl ValidationError
          else if \<exists>a \<in> set coll. acc_username a = u \<or> acc_email a = e then Inl DuplicateKeyError
          else Inr (coll @ [\<lparr>acc_id = oid, acc_username = u, acc_email = e,
                              acc_password = password\<rparr>])
      | _ \<Rightarrow> Inl ValidationError)"

text \<open>Validating a new complaint. The status takes its default; \<open>createdAt\<close> and
  \<open>updatedAt\<close> are the time of the request.\<close>

definition validate_complaint ::
  "env \<Rightarrow> objectId \<Rightarrow> date \<Rightarrow> string option \<Rightarrow> string option \<Rightarrow> string option
     \<Rightarrow> string option \<Rightarrow> string option \<Rightarrow> string option \<Rightarrow> image option
     \<Rightarrow> error + complaint" where
  "validate_complaint E oid now username complaintText date location subLocation roomNo img =
     (case (username, complaintText, location) of
        (Some u, Some t, Some l) \<Rightarrow>
          if u = [] \<or> t = [] \<or> l = [] then Inl ValidationError
          else (case cast_date_field E date of
                  Inl err \<Rightarrow> Inl err
                | Inr None \<Rightarrow> Inl ValidationError
                | Inr (Some d) \<Rightarrow>
                    Inr \<lparr>c_id = oid, c_username = u, c_complaintText = t, c_date = d,
                         c_location = l, c_subLocation = subLocation, c_roomNo = roomNo,
                         c_image = img, c_status = Some ''Yet to Begin'',
                         c_createdAt = now, c_updatedAt = now\<rparr>)
      | _ \<Rightarrow> Inl ValidationError)"

definition status_enum :: "string list" where
  "status_enum = [''Yet to Begin'', ''In Progress'', ''Resolved'']"

text \<open>Validating a new status document: three required strings, and the \<open>enum\<close> of
  \<open>status\<close>.\<close>

definition validate_status ::
  "objectId \<Rightarrow> objectId \<Rightarrow> string option \<Rightarrow> string option \<Rightarrow> string option
     \<Rightarrow> string option \<Rightarrow> date \<Rightarrow> error + status_doc" where
  "validate_status oid complaintId complaintText location subLocation status updatedAt =
     (case (complaintText, location, status) of
        (Some t, Some l, Some st) \<Rightarrow>
          if t = [] \<or> l = [] \<or> st = [] then Inl ValidationError
          else if st \<notin> set status_enum then Inl ValidationError
          else Inr \<lparr>st_id = oid, st_complaintId = complaintId, st_complaintText = t,
                    st_location = l, st_subLocation = subLocation, st_status = st,
                    st_updatedAt = updatedAt\<rparr>
      | _ \<Rightarrow> Inl ValidationError)"

text \<open>Saving a complaint that was read from the store: its paths are validated again,
  and the stored document with its \<open>_id\<close> is replaced.\<close>

fun replace_by_id :: "complaint \<Rightarrow> complaint list \<Rightarrow> complaint list option" where
  "replace_by_id c [] = None"
| "replace_by_id c (x # xs) =
     (if c_id x = c_id c then Some (c # xs) else map_option ((#) x) (replace_by_id c xs))"

definition save_complaint :: "complaint \<Rightarrow> complaint list \<Rightarrow> error + complaint list" where
  "save_complaint c coll =
     (if c_username c = [] \<or> c_complaintText c = [] \<or> c_location c = [] then Inl ValidationError
      else (case replace_by_id c coll of
              None \<Rightarrow> Inl DocumentNotFoundError
            | Some coll' \<Rightarrow> Inr coll'))"

definition validate_event :: "objectId \<Rightarrow> date \<Rightarrow> event_body \<Rightarrow> error + event" where
  "validate_event oid now b =
     (case (eb_date b, eb_department b, eb_title b, eb_venue b, eb_time b, eb_timePeriod b) of
        (Some d, Some dep, Some t, Some v, Some tm, Some tp) \<Rightarrow>
          if d = [] \<or> dep = [] \<or> t = [] \<or> v = [] \<or> tm = [] \<or> tp = [] then Inl ValidationError
          else if tp \<notin> {''AM'', ''PM''} then Inl ValidationError
          else Inr \<lparr>ev_id = oid, ev_date = d, ev_department = dep, ev_title = t, ev_venue = v,
                    ev_time = tm, ev_timePeriod = tp, ev_description = eb_description b,
                    ev_createdAt = now, ev_updatedAt = now\<rparr>
      | _ \<Rightarrow> Inl ValidationError)"

definition validate_feedback :: "objectId \<Rightarrow> date \<Rightarrow> feedback_body \<Rightarrow> error + feedback" where
  "validate_feedback oid now b =
     (case (fbb_date b, fbb_description b, fbb_rating b) of
        (Some d, Some t, Some r) \<Rightarrow>
          if d = [] \<or> t = [] then Inl ValidationError
          else Inr \<lparr>fb_id = oid, fb_date = d, fb_description = t, fb_rating = r,
                    fb_createdAt = now, fb_updatedAt = now\<rparr>
      | _ \<Rightarrow> Inl ValidationError)"

subsection \<open>User and admin routes\<close>

text \<open>\<open>bcrypt.hash(password, 10)\<close> rejects when the password is not a string.\<close>

fun hash_password :: "env \<Rightarrow> json \<Rightarrow> error + string" where
  "hash_password E (JStr p) = Inr (bcrypt_hash E p)"
| "hash_password E v = Inl IllegalArguments"

text \<open>The test \<open>existing.email === email\<close> of the conflict answer.\<close>

definition conflict_message :: "account \<Rightarrow> json \<Rightarrow> string" where
  "conflict_message existing email =
     (if JStr (acc_email existing) = email then ''Email already registered''
      else ''Username already taken'')"

text \<open>A clause \<open>{path: v}\<close> of the filter, on a required string path. An absent \<open>v\<close> is sent
  as \<open>null\<close>, which matches only documents without the path: none, since the path is
  required. A string is compared with the stored one. What any other value tests is
  Mongoose's and the store's.\<close>

fun clause :: "env \<Rightarrow> json \<Rightarrow> (string \<Rightarrow> bool) option" where
  "clause E JAbsent = Some (\<lambda>stored. False)"
| "clause E (JStr v) = Some (\<lambda>stored. stored = v)"
| "clause E v = castFilter E v"

text \<open>The query has no sort: of the documents that match, the store returns one of its
  choice.\<close>

definition returned :: "env \<Rightarrow> 'a list \<Rightarrow> 'a option" where
  "returned E docs =
     (if docs = [] then None else Some (docs ! (or_choice E mod length docs)))"

text \<open>The lookup \<open>findOne({$or: [{email}, {username}]})\<close> of both signup routes.\<close>

definition findOne_or :: "env \<Rightarrow> signup_body \<Rightarrow> account list \<Rightarrow> error + account option" where
  "findOne_or E b coll =
     (case (clause E (sb_email b), clause E (sb_username b)) of
        (Some email_matches, Some username_matches) \<Rightarrow>
          Inr (returned E (filter (\<lambda>a. email_matches (acc_email a) \<or>
                                      username_matches (acc_username a)) coll))
      | _ \<Rightarrow> Inl CastError)"

definition user_signup :: "env \<Rightarrow> signup_body \<Rightarrow> state \<Rightarrow> response \<times> state" where
  "user_signup E b s =
     (case findOne_or E b (users s) of
        Inl err \<Rightarrow> (\<lparr>code = 500, body = JError ''Signup failed. Please try again.''\<rparr>, s)
      | Inr (Some existingUser) \<Rightarrow>
          (\<lparr>code = 400, body = JError (conflict_message existingUser (sb_email b))\<rparr>, s)
      | Inr None \<Rightarrow>
          (case hash_password E (sb_password b) of
             Inl err \<Rightarrow> (\<lparr>code = 500, body = JError ''Signup failed. Please try again.''\<rparr>, s)
           | Inr hashedPassword \<Rightarrow>
               (case new_id s of (oid, s1) \<Rightarrow>
                  (case save_account E (users s1) oid (sb_username b) (sb_email b)
                          hashedPassword of
                     Inl err \<Rightarrow>
                       (\<lparr>code = 500, body = JError ''Signup failed. Please try again.''\<rparr>, s1)
                   | Inr coll \<Rightarrow>
                       (\<lparr>code = 201, body = JMessage ''User signup successful!''\<rparr>,
                        s1\<lparr>users := coll\<rparr>)))))"

text \<open>\<open>bcrypt.compare(password, hash)\<close> rejects when the password is not a string.\<close>

definition user_login :: "env \<Rightarrow> login_body \<Rightarrow> state \<Rightarrow> response \<times> state" where
  "user_login E b s =
     (case findOne (\<lambda>a. eq_filter (lb_username b) (acc_username a)) (users s) of
        None \<Rightarrow> (\<lparr>code = 401, body = JError ''Invalid username''\<rparr>, s)
      | Some user \<Rightarrow>
          (case lb_password b of
             None \<Rightarrow> (\<lparr>code = 500, body = JError ''Login failed. Please try again.''\<rparr>, s)
           | Some p \<Rightarrow>
               if \<not> bcrypt_compare E p (acc_password user)
               then (\<lparr>code = 401, body = JError ''Invalid password''\<rparr>, s)
               else (\<lparr>code = 200, body = JMessage ''Login successful!''\<rparr>, s)))"

definition admin_signup :: "env \<Rightarrow> signup_body \<Rightarrow> state \<Rightarrow> response \<times> state" where
  "admin_signup E b s =
     (if \<not> truthy (sb_username b) \<or> \<not> truthy (sb_email b) \<or> \<not> truthy (sb_password b)
      then (\<lparr>code = 400, body = JError ''All fields are required''\<rparr>, s)
      else
        (case js_endsWith (sb_email b) ''@admin.com'' of
           Inl err \<Rightarrow>
             (\<lparr>code = 500, body = JError ''Admin signup failed. Please try again.''\<rparr>, s)
         | Inr False \<Rightarrow>
             (\<lparr>code = 400, body = JError ''Email must end with @admin.com''\<rparr>, s)
         | Inr True \<Rightarrow>
             (case findOne_or E b (admins s) of
                Inl err \<Rightarrow>
                  (\<lparr>code = 500, body = JError ''Admin signup failed. Please try again.''\<rparr>, s)
              | Inr (Some existingAdmin) \<Rightarrow>
                  (\<lparr>code = 400, body = JError (conflict_message existingAdmin (sb_email b))\<rparr>, s)
              | Inr None \<Rightarrow>
                  (case hash_password E (sb_password b) of
                     Inl err \<Rightarrow>
                       (\<lparr>code = 500,
                         body = JError ''Admin signup failed. Please try again.''\<rparr>, s)
                   | Inr hashedPassword \<Rightarrow>
                       (case new_id s of (oid, s1) \<Rightarrow>
                          (case save_account E (admins s1) oid (sb_username b) (sb_email b)
                                  hashedPassword of
                             Inl err \<Rightarrow>
                               (\<lparr>code = 500,
                                 body = JError ''Admin signup failed. Please try again.''\<rparr>, s1)
                           | Inr coll \<Rightarrow>
                               (\<lparr>code = 201, body = JMessage ''Admin signup successful!''\<rparr>,
                                s1\<lparr>admins := coll\<rparr>)))))))"

definition admin_login :: "env \<Rightarrow> login_body \<Rightarrow> state \<Rightarrow> response \<times> state" where
  "admin_login E b s =
     (case findOne (\<lambda>a. eq_filter (lb_username b) (acc_username a)) (admins s) of
        None \<Rightarrow> (\<lparr>code = 401, body = JError ''Invalid username''\<rparr>, s)
      | Some admin \<Rightarrow>
          (case lb_password b of
             None \<Rightarrow> (\<lparr>code = 500, body = JError ''Login failed. Please try again.''\<rparr>, s)
           | Some p \<Rightarrow>
               if \<not> bcrypt_compare E p (acc_password admin)
               then (\<lparr>code = 401, body = JError ''Invalid password''\<rparr>, s)
               else (\<lparr>code = 200, body = JMessage ''Admin login successful!''\<rparr>, s)))"

subsection \<open>Complaint routes\<close>

definition submit_roomNo :: "complaint_body \<Rightarrow> string option" where
  "submit_roomNo b =
     (if cb_location b = Some ''mess'' \<or> cb_location b = Some ''garden'' then None
      else cb_roomNo b)"

definition submit_complaint :: "env \<Rightarrow> date \<Rightarrow> complaint_body \<Rightarrow> state \<Rightarrow> response \<times> state" where
  "submit_complaint E now b s =
     (case new_id s of (oid, s1) \<Rightarrow>
        (case validate_complaint E oid now (cb_username b) (cb_complaintText b) (cb_date b)
                (cb_location b) (cb_subLocation b) (submit_roomNo b) (cb_file b) of
           Inl err \<Rightarrow> (\<lparr>code = 500, body = JError ''Failed to submit complaint''\<rparr>, s1)
         | Inr complaint \<Rightarrow>
             (case new_id (s1\<lparr>complaints := complaints s1 @ [complaint]\<rparr>) of (sid, s2) \<Rightarrow>
                (case validate_status sid (c_id complaint) (Some (c_complaintText complaint))
                        (Some (c_location complaint)) (c_subLocation complaint)
                        (Some ''Yet to Begin'') now of
                   Inl err \<Rightarrow> (\<lparr>code = 500, body = JError ''Failed to submit complaint''\<rparr>, s2)
                 | Inr initialStatus \<Rightarrow>
                     (\<lparr>code = 201, body = JMessage ''Complaint submitted successfully!''\<rparr>,
                      s2\<lparr>statuses := statuses s2 @ [initialStatus]\<rparr>)))))"

definition image_uri :: "env \<Rightarrow> complaint \<Rightarrow> string option" where
  "image_uri E complaint =
     (case c_image complaint of
        Some img \<Rightarrow>
          Some (''data:'' @ img_contentType img @ '';base64,'' @ toBase64 E (img_data img))
      | None \<Rightarrow> None)"

text \<open>A document read from the store is hydrated: a path that is not stored takes its
  schema default. Of the paths of a complaint only \<open>status\<close> can be missing from a stored
  document (after an update without a status) and has a default.\<close>

definition hydrate :: "complaint \<Rightarrow> complaint" where
  "hydrate c = (case c_status c of None \<Rightarrow> c\<lparr>c_status := Some ''Yet to Begin''\<rparr> | Some v \<Rightarrow> c)"

definition get_complaints :: "env \<Rightarrow> state \<Rightarrow> response \<times> state" where
  "get_complaints E s =
     (\<lparr>code = 200,
       body = JComplaints
                (map (\<lambda>complaint. \<lparr>cv_doc = complaint, cv_image = image_uri E complaint\<rparr>)
                     (map hydrate (complaints s)))\<rparr>, s)"

subsection \<open>Status routes\<close>

text \<open>The filter of the lookup is \<open>{date: new Date(date)}\<close>. An Invalid Date does not cast
  to the schema type Date, so the query is rejected and the handler's \<open>catch\<close> answers. The
  complaint is saved before the status document is constructed and validated.\<close>

definition update_status ::
  "env \<Rightarrow> date \<Rightarrow> string \<Rightarrow> string option \<Rightarrow> state \<Rightarrow> response \<times> state" where
  "update_status E now date status s =
     (case newDate E date of
        None \<Rightarrow> (\<lparr>code = 500, body = JMessage ''Failed to update status''\<rparr>, s)
      | Some d \<Rightarrow>
          (case findOne (\<lambda>c. c_date c = d) (complaints s) of
             None \<Rightarrow> (\<lparr>code = 404, body = JMessage ''Complaint not found''\<rparr>, s)
           | Some complaint \<Rightarrow>
               (case save_complaint (complaint\<lparr>c_status := status, c_updatedAt := now\<rparr>)
                       (complaints s) of
                  Inl err \<Rightarrow> (\<lparr>code = 500, body = JMessage ''Failed to update status''\<rparr>, s)
                | Inr coll \<Rightarrow>
                    (case new_id (s\<lparr>complaints := coll\<rparr>) of (oid, s1) \<Rightarrow>
                       (case validate_status oid (c_id complaint)
                               (Some (c_complaintText complaint)) (Some (c_location complaint))
                               (c_subLocation complaint) status now of
                          Inl err \<Rightarrow>
                            (\<lparr>code = 500, body = JMessage ''Failed to update status''\<rparr>, s1)
                        | Inr newStatus \<Rightarrow>
                            (\<lparr>code = 200, body = JMessage ''Status updated successfully''\<rparr>,
                             s1\<lparr>statuses := statuses s1 @ [newStatus]\<rparr>))))))"

definition populate :: "complaint list \<Rightarrow> status_doc \<Rightarrow> status_view" where
  "populate coll st =
     \<lparr>sv_doc = st,
      sv_complaintId =
        map_option (\<lambda>c. \<lparr>pop_complaintText = c_complaintText c, pop_location = c_location c,
                         pop_subLocation = c_subLocation c\<rparr>)
          (findOne (\<lambda>c. c_id c = st_complaintId st) coll)\<rparr>"

definition get_status :: "state \<Rightarrow> response \<times> state" where
  "get_status s = (\<lparr>code = 200, body = JStatuses (map (populate (complaints s)) (statuses s))\<rparr>, s)"

subsection \<open>Event and feedback routes\<close>

definition post_event :: "date \<Rightarrow> event_body \<Rightarrow> state \<Rightarrow> response \<times> state" where
  "post_event now b s =
     (case new_id s of (oid, s1) \<Rightarrow>
        (case validate_event oid now b of
           Inl err \<Rightarrow> (\<lparr>code = 500, body = JFailure ''Failed to post event''\<rparr>, s1)
         | Inr ev \<Rightarrow>
             (\<lparr>code = 201, body = JSuccess ''Event posted successfully!''\<rparr>,
              s1\<lparr>events := events s1 @ [ev]\<rparr>)))"

definition get_events :: "state \<Rightarrow> response \<times> state" where
  "get_events s = (\<lparr>code = 200, body = JEvents (events s)\<rparr>, s)"

definition post_feedback :: "date \<Rightarrow> feedback_body \<Rightarrow> state \<Rightarrow> response \<times> state" where
  "post_feedback now b s =
     (case new_id s of (oid, s1) \<Rightarrow>
        (case validate_feedback oid now b of
           Inl err \<Rightarrow> (\<lparr>code = 500, body = JFailure ''Failed to submit feedback''\<rparr>, s1)
         | Inr fb \<Rightarrow>
             (\<lparr>code = 201, body = JSuccess ''Feedback submitted successfully!''\<rparr>,
              s1\<lparr>feedbacks := feedbacks s1 @ [fb]\<rparr>)))"

definition get_feedback :: "state \<Rightarrow> response \<times> state" where
  "get_feedback s = (\<lparr>code = 200, body = JFeedbacks (feedbacks s)\<rparr>, s)"

subsection \<open>The server as a transition system\<close>

datatype request =
    UserSignup signup_body
  | UserLogin login_body
  | AdminSignup signup_body
  | AdminLogin login_body
  | SubmitComplaint complaint_body
  | GetComplaints
  | UpdateStatus string "string option"
  | GetStatus
  | PostEvent event_body
  | GetEvents
  | PostFeedback feedback_body
  | GetFeedback

fun handle :: "env \<Rightarrow> date \<Rightarrow> request \<Rightarrow> state \<Rightarrow> response \<times> state" where
  "handle E now (UserSignup b) s = user_signup E b s"
| "handle E now (UserLogin b) s = user_login E b s"
| "handle E now (AdminSignup b) s = admin_signup E b s"
| "handle E now (AdminLogin b) s = admin_login E b s"
| "handle E now (SubmitComplaint b) s = submit_complaint E now b s"
| "handle E now GetComplaints s = get_complaints E s"
| "handle E now (UpdateStatus date status) s = update_status E now date status s"
| "handle E now GetStatus s = get_status s"
| "handle E now (PostEvent b) s = post_event now b s"
| "handle E now GetEvents s = get_events s"
| "handle E now (PostFeedback b) s = post_feedback now b s"
| "handle E now GetFeedback s = get_feedback s"

inductive reachable :: "state \<Rightarrow> bool" where
  reachable_init: "reachable init"
| reachable_step: "reachable s \<Longrightarrow> reachable (snd (handle E now req s))"

subsection \<open>Predicates on requests and states\<close>

text \<open>A submission that passes the Complaint schema: \<open>username\<close>, \<open>complaintText\<close> and
  \<open>location\<close> are non-empty strings and \<open>date\<close> is a non-empty string that casts to a
  date.\<close>

definition valid_submission :: "env \<Rightarrow> complaint_body \<Rightarrow> bool" where
  "valid_submission E b =
     (required_string (cb_username b) \<and> required_string (cb_complaintText b) \<and>
      required_string (cb_location b) \<and>
      (case cb_date b of None \<Rightarrow> False | Some str \<Rightarrow> str \<noteq> [] \<and> castDate E str \<noteq> None))"

text \<open>A signup field that is a string or absent.\<close>

fun plain :: "json \<Rightarrow> bool" where
  "plain JAbsent = True"
| "plain (JStr v) = True"
| "plain v = False"

text \<open>The stored complaints satisfy their schema, identifiers are distinct and were all
  drawn from the counter. Every state that the handlers reach from \<open>init\<close> is of this kind
  (\<open>reachable_wf_state\<close> below).\<close>

definition wf_state :: "state \<Rightarrow> bool" where
  "wf_state s =
     ((\<forall>c \<in> set (complaints s).
         c_username c \<noteq> [] \<and> c_complaintText c \<noteq> [] \<and> c_location c \<noteq> [] \<and> c_id c < next_id s) \<and>
      distinct (map c_id (complaints s)) \<and>
      (\<forall>r \<in> set (statuses s). st_complaintId r < next_id s))"

text \<open>The history invariant: every stored complaint is referenced by a status document.\<close>

definition status_invariant :: "state \<Rightarrow> bool" where
  "status_invariant s =
     (\<forall>c \<in> set (complaints s). \<exists>r \<in> set (statuses s). st_complaintId r = c_id c)"

subsection \<open>Example data\<close>

definition example_env :: env where
  "example_env =
     \<lparr>bcrypt_hash = (\<lambda>p. ''$2a$10$'' @ p),
      bcrypt_compare = (\<lambda>p h. h = ''$2a$10$'' @ p),
      newDate = (\<lambda>str. if str = ''2024-01-01'' then Some 1704067200000
                       else if str = ''2024-01-02'' then Some 1704153600000 else None),
      castDate = (\<lambda>str. if str = ''2024-01-01'' then Some 1704067200000 else None),
      toBase64 = (\<lambda>bs. if bs = [0x41, 0x42, 0x43] then ''QUJD'' else []),
      castString = (\<lambda>v. if v = JNum 0 then Some ''0'' else if v = JNum 5 then Some ''5''
                          else if v = JBool False then Some ''false''
                          else if v = JBool True then Some ''true'' else None),
      castFilter = (\<lambda>v. if v = JNum 0 then Some (\<lambda>stored. stored = ''0'')
                          else if v = JNum 5 then Some (\<lambda>stored. stored = ''5'') else None),
      or_choice = 0\<rparr>"

definition example_body :: complaint_body where
  "example_body =
     \<lparr>cb_username = Some ''asha'', cb_complaintText = Some ''Tap leaking'',
      cb_date = Some ''2024-01-01'', cb_location = Some ''mess'',
      cb_subLocation = Some ''Block A'', cb_roomNo = Some ''101'', cb_file = None\<rparr>"

definition example_complaint :: complaint where
  "example_complaint =
     \<lparr>c_id = 0, c_username = ''asha'', c_complaintText = ''Tap leaking'',
      c_date = 1704067200000, c_location = ''mess'', c_subLocation = Some ''Block A'',
      c_roomNo = None, c_image = None, c_status = Some ''Yet to Begin'',
      c_createdAt = 1704070000000, c_updatedAt = 1704070000000\<rparr>"

definition example_status :: status_doc where
  "example_status =
     \<lparr>st_id = 1, st_complaintId = 0, st_complaintText = ''Tap leaking'',
      st_location = ''mess'', st_subLocation = Some ''Block A'',
      st_status = ''Yet to Begin'', st_updatedAt = 1704070000000\<rparr>"

definition example_state :: state where
  "example_state =
     \<lparr>users = [], admins = [], complaints = [example_complaint], statuses = [example_status],
      events = [], feedbacks = [], next_id = 2\<rparr>"

definition example_accounts :: state where
  "example_accounts =
     \<lparr>users = [\<lparr>acc_id = 0, acc_username = ''alice'', acc_email = ''alice@example.com'',
                 acc_password = ''$2a$10$wonderland''\<rparr>,
                \<lparr>acc_id = 1, acc_username = ''bob'', acc_email = ''bob@example.com'',
                 acc_password = ''$2a$10$builder''\<rparr>],
      admins = [\<lparr>acc_id = 2, acc_username = ''root'', acc_email = ''root@admin.com'',
                  acc_password = ''$2a$10$toor''\<rparr>],
      complaints = [], statuses = [], events = [], feedbacks = [], next_id = 3\<rparr>"

definition example_gallery :: state where
  "example_gallery =
     \<lparr>users = [], admins = [],
      complaints =
        [example_complaint\<lparr>c_image := Some \<lparr>img_data = [0x41, 0x42, 0x43],
                                               img_contentType = ''image/png''\<rparr>\<rparr>,
         example_complaint\<lparr>c_id := 2\<rparr>],
      statuses = [example_status, example_status\<lparr>st_id := 3, st_complaintId := 2\<rparr>],
      events = [], feedbacks = [], next_id = 4\<rparr>"

section \<open>Basic facts about the handlers\<close>

lemma findOne_None: "findOne P xs = None \<longleftrightarrow> (\<forall>x \<in> set xs. \<not> P x)"
  by (auto simp: findOne_def find_None_iff)

lemma findOne_SomeD: "findOne P xs = Some x \<Longrightarrow> P x \<and> x \<in> set xs"
  by (auto simp: findOne_def find_Some_iff)

lemma required_string_iff: "required_string v \<longleftrightarrow> (\<exists>x. v = Some x \<and> x \<noteq> [])"
  by (cases v) auto

lemma validate_complaint_valid:
  assumes "valid_submission E b"
  shows "\<exists>c. validate_complaint E oid now (cb_username b) (cb_complaintText b) (cb_date b)
                (cb_location b) (cb_subLocation b) rn (cb_file b) = Inr c \<and>
             c_id c = oid \<and> Some (c_username c) = cb_username b \<and>
             Some (c_complaintText c) = cb_complaintText b \<and> Some (c_location c) = cb_location b \<and>
             c_subLocation c = cb_subLocation b \<and> c_roomNo c = rn \<and> c_image c = cb_file b \<and>
             c_status c = Some ''Yet to Begin'' \<and> c_createdAt c = now \<and> c_updatedAt c = now \<and>
             c_username c \<noteq> [] \<and> c_complaintText c \<noteq> [] \<and> c_location c \<noteq> []"
  using assms
  by (auto simp: valid_submission_def validate_complaint_def cast_date_field_def required_string_iff
           split: option.splits)

lemma validate_complaint_invalid:
  assumes "\<not> valid_submission E b"
  shows "\<exists>e. validate_complaint E oid now (cb_username b) (cb_complaintText b) (cb_date b)
                (cb_location b) (cb_subLocation b) rn (cb_file b) = Inl e"
  using assms
  by (auto simp: valid_submission_def validate_complaint_def cast_date_field_def required_string_iff
           split: option.splits)

lemma validate_status_initial:
  assumes "t \<noteq> []" "l \<noteq> []"
  shows "validate_status oid cid (Some t) (Some l) sl (Some ''Yet to Begin'') now =
         Inr \<lparr>st_id = oid, st_complaintId = cid, st_complaintText = t, st_location = l,
              st_subLocation = sl, st_status = ''Yet to Begin'', st_updatedAt = now\<rparr>"
  using assms by (simp add: validate_status_def status_enum_def)


lemma submit_complaint_valid:
  assumes "valid_submission E b"
  shows "\<exists>c r. submit_complaint E now b s =
           (\<lparr>code = 201, body = JMessage ''Complaint submitted successfully!''\<rparr>,
            s\<lparr>next_id := Suc (Suc (next_id s)), complaints := complaints s @ [c],
              statuses := statuses s @ [r]\<rparr>) \<and>
           c_id c = next_id s \<and> c_status c = Some ''Yet to Begin'' \<and>
           Some (c_username c) = cb_username b \<and>
           Some (c_complaintText c) = cb_complaintText b \<and>
           Some (c_location c) = cb_location b \<and>
           c_subLocation c = cb_subLocation b \<and> c_roomNo c = submit_roomNo b \<and>
           c_image c = cb_file b \<and> c_createdAt c = now \<and> c_updatedAt c = now \<and>
           c_username c \<noteq> [] \<and> c_complaintText c \<noteq> [] \<and> c_location c \<noteq> [] \<and>
           r = \<lparr>st_id = Suc (next_id s), st_complaintId = next_id s,
                st_complaintText = c_complaintText c, st_location = c_location c,
                st_subLocation = c_subLocation c, st_status = ''Yet to Begin'',
                st_updatedAt = now\<rparr>"
proof -
  from validate_complaint_valid [OF assms, of "next_id s" now "submit_roomNo b"]
  obtain c where c:
    "validate_complaint E (next_id s) now (cb_username b) (cb_complaintText b) (cb_date b)
       (cb_location b) (cb_subLocation b) (submit_roomNo b) (cb_file b) = Inr c"
    "c_id c = next_id s" "Some (c_username c) = cb_username b"
    "Some (c_complaintText c) = cb_complaintText b" "Some (c_location c) = cb_location b"
    "c_subLocation c = cb_subLocation b" "c_roomNo c = submit_roomNo b" "c_image c = cb_file b"
    "c_status c = Some ''Yet to Begin''" "c_createdAt c = now" "c_updatedAt c = now"
    "c_username c \<noteq> []" "c_complaintText c \<noteq> []" "c_location c \<noteq> []"
    by blast
  let ?r = "\<lparr>st_id = Suc (next_id s), st_complaintId = next_id s,
             st_complaintText = c_complaintText c, st_location = c_location c,
             st_subLocation = c_subLocation c, st_status = ''Yet to Begin'',
             st_updatedAt = now\<rparr>"
  have "submit_complaint E now b s =
          (\<lparr>code = 201, body = JMessage ''Complaint submitted successfully!''\<rparr>,
           s\<lparr>next_id := Suc (Suc (next_id s)), complaints := complaints s @ [c],
             statuses := statuses s @ [?r]\<rparr>)"
    using c(1,2,12,13,14)
    by (simp add: submit_complaint_def new_id_def validate_status_initial)
  with c show ?thesis by blast
qed

lemma submit_complaint_invalid:
  assumes "\<not> valid_submission E b"
  shows "submit_complaint E now b s =
           (\<lparr>code = 500, body = JError ''Failed to submit complaint''\<rparr>,
            s\<lparr>next_id := Suc (next_id s)\<rparr>)"
proof -
  from validate_complaint_invalid [OF assms, of "next_id s" now "submit_roomNo b"]
  obtain e where
    "validate_complaint E (next_id s) now (cb_username b) (cb_complaintText b) (cb_date b)
       (cb_location b) (cb_subLocation b) (submit_roomNo b) (cb_file b) = Inl e"
    by blast
  then show ?thesis by (simp add: submit_complaint_def new_id_def)
qed


lemma replace_by_id_ids: "replace_by_id c xs = Some ys \<Longrightarrow> map c_id ys = map c_id xs"
  by (induction xs arbitrary: ys) (auto split: if_splits)

lemma replace_by_id_set: "replace_by_id c xs = Some ys \<Longrightarrow> set ys \<subseteq> insert c (set xs)"
  by (induction xs arbitrary: ys) (auto split: if_splits)

lemma replace_by_id_distinct:
  "distinct (map c_id xs) \<Longrightarrow> c_id c \<in> c_id ` set xs \<Longrightarrow>
   replace_by_id c xs = Some (map (\<lambda>x. if c_id x = c_id c then c else x) xs)"
proof (induction xs)
  case Nil
  then show ?case by simp
next
  case (Cons x xs)
  show ?case
  proof (cases "c_id x = c_id c")
    case True
    from Cons.prems(1) have "c_id x \<notin> c_id ` set xs" by simp
    with True have "\<forall>y \<in> set xs. c_id y \<noteq> c_id c" by (metis image_eqI)
    then have "map (\<lambda>x. if c_id x = c_id c then c else x) xs = xs"
      by (simp add: map_idI)
    with True show ?thesis by simp
  next
    case False
    with Cons show ?thesis by auto
  qed
qed

lemma status_enum_nonempty: "st \<in> set status_enum \<Longrightarrow> st \<noteq> []"
  by (auto simp: status_enum_def)

lemma save_complaint_found:
  assumes "wf_state s" and "findOne P (complaints s) = Some c"
  shows "save_complaint (c\<lparr>c_status := st, c_updatedAt := now\<rparr>) (complaints s) =
         Inr (map (\<lambda>x. if c_id x = c_id c then c\<lparr>c_status := st, c_updatedAt := now\<rparr> else x)
                (complaints s))"
proof -
  from assms(2) have mem: "c \<in> set (complaints s)" by (simp add: findOne_SomeD)
  with assms(1) have ok: "c_username c \<noteq> []" "c_complaintText c \<noteq> []" "c_location c \<noteq> []"
    by (auto simp: wf_state_def)
  from assms(1) have "distinct (map c_id (complaints s))" by (simp add: wf_state_def)
  from replace_by_id_distinct [OF this, of "c\<lparr>c_status := st, c_updatedAt := now\<rparr>"] mem
  have "replace_by_id (c\<lparr>c_status := st, c_updatedAt := now\<rparr>) (complaints s) =
        Some (map (\<lambda>x. if c_id x = c_id c then c\<lparr>c_status := st, c_updatedAt := now\<rparr> else x)
                (complaints s))"
    by auto
  with ok show ?thesis by (simp add: save_complaint_def)
qed

lemma update_status_accepted:
  assumes "wf_state s" and "newDate E date = Some d"
    and "findOne (\<lambda>c. c_date c = d) (complaints s) = Some c"
    and "st \<in> set status_enum"
  shows "update_status E now date (Some st) s =
           (\<lparr>code = 200, body = JMessage ''Status updated successfully''\<rparr>,
            s\<lparr>complaints :=
                 map (\<lambda>x. if c_id x = c_id c then c\<lparr>c_status := Some st, c_updatedAt := now\<rparr>
                           else x) (complaints s),
              next_id := Suc (next_id s),
              statuses := statuses s @
                 [\<lparr>st_id = next_id s, st_complaintId = c_id c,
                   st_complaintText = c_complaintText c, st_location = c_location c,
                   st_subLocation = c_subLocation c, st_status = st, st_updatedAt = now\<rparr>]\<rparr>)"
proof -
  from assms(3) have mem: "c \<in> set (complaints s)" by (simp add: findOne_SomeD)
  with assms(1) have ok: "c_complaintText c \<noteq> []" "c_location c \<noteq> []"
    by (auto simp: wf_state_def)
  have v: "validate_status (next_id s) (c_id c) (Some (c_complaintText c)) (Some (c_location c))
             (c_subLocation c) (Some st) now =
           Inr \<lparr>st_id = next_id s, st_complaintId = c_id c,
                st_complaintText = c_complaintText c, st_location = c_location c,
                st_subLocation = c_subLocation c, st_status = st, st_updatedAt = now\<rparr>"
    using ok assms(4) status_enum_nonempty [OF assms(4)] by (simp add: validate_status_def)
  show ?thesis
    using assms(2,3) save_complaint_found [OF assms(1,3), where st = "Some st" and now = now] v
    by (simp add: update_status_def new_id_def)
qed

lemma validate_status_rejected:
  assumes "status = None \<or> (\<exists>st. status = Some st \<and> st \<notin> set status_enum)"
  shows "\<exists>e. validate_status oid cid t l sl status now = Inl e"
  using assms by (auto simp: validate_status_def split: option.splits)

lemma update_status_rejected:
  assumes "wf_state s" and "newDate E date = Some d"
    and "findOne (\<lambda>c. c_date c = d) (complaints s) = Some c"
    and "status = None \<or> (\<exists>st. status = Some st \<and> st \<notin> set status_enum)"
  shows "update_status E now date status s =
           (\<lparr>code = 500, body = JMessage ''Failed to update status''\<rparr>,
            s\<lparr>complaints :=
                 map (\<lambda>x. if c_id x = c_id c then c\<lparr>c_status := status, c_updatedAt := now\<rparr>
                           else x) (complaints s),
              next_id := Suc (next_id s)\<rparr>)"
proof -
  from validate_status_rejected [OF assms(4)]
  obtain e where "validate_status (next_id s) (c_id c) (Some (c_complaintText c))
                    (Some (c_location c)) (c_subLocation c) status now = Inl e"
    by blast
  then show ?thesis
    using assms(2,3) save_complaint_found [OF assms(1,3), where st = status and now = now]
    by (simp add: update_status_def new_id_def)
qed

lemma update_status_unparseable:
  "newDate E date = None \<Longrightarrow>
   update_status E now date status s =
     (\<lparr>code = 500, body = JMessage ''Failed to update status''\<rparr>, s)"
  by (simp add: update_status_def)

lemma update_status_no_match:
  "newDate E date = Some d \<Longrightarrow> \<forall>c \<in> set (complaints s). c_date c \<noteq> d \<Longrightarrow>
   update_status E now date status s =
     (\<lparr>code = 404, body = JMessage ''Complaint not found''\<rparr>, s)"
  using findOne_None [of "\<lambda>c. c_date c = d" "complaints s"]
  by (simp add: update_status_def)


lemma wf_state_frame:
  assumes "wf_state s" and "complaints s' = complaints s" and "statuses s' = statuses s"
    and "next_id s \<le> next_id s'"
  shows "wf_state s'"
  using assms unfolding wf_state_def by (metis less_le_trans)

lemma user_signup_frame:
  "complaints (snd (user_signup E b s)) = complaints s \<and>
   statuses (snd (user_signup E b s)) = statuses s \<and>
   admins (snd (user_signup E b s)) = admins s \<and>
   next_id s \<le> next_id (snd (user_signup E b s))"
  by (simp add: user_signup_def new_id_def split: option.splits sum.splits)

lemma admin_signup_frame:
  "complaints (snd (admin_signup E b s)) = complaints s \<and>
   statuses (snd (admin_signup E b s)) = statuses s \<and>
   users (snd (admin_signup E b s)) = users s \<and>
   next_id s \<le> next_id (snd (admin_signup E b s))"
  by (simp add: admin_signup_def new_id_def split: option.splits sum.splits bool.splits)

lemma login_frame:
  "snd (user_login E b s) = s" "snd (admin_login E b s) = s"
  by (simp_all add: user_login_def admin_login_def split: option.splits)

lemma read_frame:
  "snd (get_complaints E s) = s" "snd (get_status s) = s" "snd (get_events s) = s"
  "snd (get_feedback s) = s"
  by (simp_all add: get_complaints_def get_status_def get_events_def get_feedback_def)

lemma post_event_frame:
  "complaints (snd (post_event now b s)) = complaints s \<and>
   statuses (snd (post_event now b s)) = statuses s \<and>
   next_id s \<le> next_id (snd (post_event now b s))"
  by (simp add: post_event_def new_id_def split: sum.splits)

lemma post_feedback_frame:
  "complaints (snd (post_feedback now b s)) = complaints s \<and>
   statuses (snd (post_feedback now b s)) = statuses s \<and>
   next_id s \<le> next_id (snd (post_feedback now b s))"
  by (simp add: post_feedback_def new_id_def split: sum.splits)

lemma update_status_effect:
  "\<exists>rs. map c_id (complaints (snd (update_status E now date status s))) = map c_id (complaints s) \<and>
        statuses (snd (update_status E now date status s)) = statuses s @ rs \<and>
        (\<forall>r \<in> set rs. st_complaintId r \<in> c_id ` set (complaints s)) \<and>
        next_id s \<le> next_id (snd (update_status E now date status s)) \<and>
        (\<forall>x \<in> set (complaints (snd (update_status E now date status s))).
           \<exists>y \<in> set (complaints s). c_id x = c_id y \<and> c_username x = c_username y \<and>
             c_complaintText x = c_complaintText y \<and> c_location x = c_location y)"
proof (cases "newDate E date")
  case None
  then show ?thesis by (auto simp: update_status_unparseable)
next
  case (Some d)
  show ?thesis
  proof (cases "findOne (\<lambda>c. c_date c = d) (complaints s)")
    case None
    with Some show ?thesis by (auto simp: update_status_def)
  next
    case found: (Some c)
    then have mem: "c \<in> set (complaints s)" by (simp add: findOne_SomeD)
    let ?c' = "c\<lparr>c_status := status, c_updatedAt := now\<rparr>"
    show ?thesis
    proof (cases "save_complaint ?c' (complaints s)")
      case (Inl e)
      with Some found show ?thesis by (auto simp: update_status_def)
    next
      case (Inr coll)
      then have rep: "replace_by_id ?c' (complaints s) = Some coll"
        by (auto simp: save_complaint_def split: if_splits option.splits)
      have ids: "map c_id coll = map c_id (complaints s)"
        using replace_by_id_ids [OF rep] .
      have sub: "set coll \<subseteq> insert ?c' (set (complaints s))"
        using replace_by_id_set [OF rep] .
      have keep: "\<forall>x \<in> set coll. \<exists>y \<in> set (complaints s). c_id x = c_id y \<and>
                    c_username x = c_username y \<and> c_complaintText x = c_complaintText y \<and>
                    c_location x = c_location y"
      proof
        fix x assume "x \<in> set coll"
        with sub have "x = ?c' \<or> x \<in> set (complaints s)" by auto
        then show "\<exists>y \<in> set (complaints s). c_id x = c_id y \<and>
                    c_username x = c_username y \<and> c_complaintText x = c_complaintText y \<and>
                    c_location x = c_location y"
        proof
          assume "x = ?c'"
          with mem show ?thesis by (intro bexI [of _ c]) simp_all
        next
          assume "x \<in> set (complaints s)"
          then show ?thesis by blast
        qed
      qed
      show ?thesis
      proof (cases "validate_status (next_id s) (c_id c) (Some (c_complaintText c))
                      (Some (c_location c)) (c_subLocation c) status now")
        case (Inl e)
        with Some found Inr ids keep show ?thesis
          by (simp add: update_status_def new_id_def)
      next
        case newStatus: (Inr r)
        then have "st_complaintId r = c_id c"
          by (auto simp: validate_status_def split: option.splits if_splits)
        with mem have "st_complaintId r \<in> c_id ` set (complaints s)" by simp
        with Some found Inr ids keep newStatus show ?thesis
          by (simp add: update_status_def new_id_def)
      qed
    qed
  qed
qed

lemma submit_complaint_cases:
  "(valid_submission E b \<and> (\<exists>c r. snd (submit_complaint E now b s) =
        s\<lparr>next_id := Suc (Suc (next_id s)), complaints := complaints s @ [c],
          statuses := statuses s @ [r]\<rparr> \<and> c_id c = next_id s \<and> st_complaintId r = next_id s \<and>
        c_username c \<noteq> [] \<and> c_complaintText c \<noteq> [] \<and> c_location c \<noteq> [])) \<or>
   (\<not> valid_submission E b \<and> snd (submit_complaint E now b s) = s\<lparr>next_id := Suc (next_id s)\<rparr>)"
proof (cases "valid_submission E b")
  case True
  from submit_complaint_valid [OF True, of now s] obtain c r where cr:
    "submit_complaint E now b s =
       (\<lparr>code = 201, body = JMessage ''Complaint submitted successfully!''\<rparr>,
        s\<lparr>next_id := Suc (Suc (next_id s)), complaints := complaints s @ [c],
          statuses := statuses s @ [r]\<rparr>)"
    "c_id c = next_id s" "c_username c \<noteq> []" "c_complaintText c \<noteq> []" "c_location c \<noteq> []"
    "r = \<lparr>st_id = Suc (next_id s), st_complaintId = next_id s,
          st_complaintText = c_complaintText c, st_location = c_location c,
          st_subLocation = c_subLocation c, st_status = ''Yet to Begin'',
          st_updatedAt = now\<rparr>"
    by blast
  have "snd (submit_complaint E now b s) =
          s\<lparr>next_id := Suc (Suc (next_id s)), complaints := complaints s @ [c],
            statuses := statuses s @ [r]\<rparr> \<and> c_id c = next_id s \<and> st_complaintId r = next_id s \<and>
        c_username c \<noteq> [] \<and> c_complaintText c \<noteq> [] \<and> c_location c \<noteq> []"
    using cr by simp
  with True show ?thesis by blast
next
  case False
  with submit_complaint_invalid [OF False, of now s] show ?thesis by simp
qed

lemma wf_state_extend:
  assumes "wf_state s" and "c_id c = next_id s" and "st_complaintId r = next_id s"
    and "c_username c \<noteq> []" and "c_complaintText c \<noteq> []" and "c_location c \<noteq> []"
  shows "wf_state (s\<lparr>next_id := Suc (Suc (next_id s)), complaints := complaints s @ [c],
                    statuses := statuses s @ [r]\<rparr>)"
proof -
  from assms(1) have old: "\<forall>x \<in> set (complaints s). c_id x < next_id s"
    by (simp add: wf_state_def)
  then have "next_id s \<notin> c_id ` set (complaints s)" by auto
  with assms show ?thesis
    unfolding wf_state_def by (simp add: less_Suc_eq ball_Un)
qed

lemma wf_state_submit:
  assumes "wf_state s"
  shows "wf_state (snd (submit_complaint E now b s))"
proof (cases "valid_submission E b")
  case True
  with submit_complaint_cases [of E b now s] obtain c r where
    "snd (submit_complaint E now b s) =
        s\<lparr>next_id := Suc (Suc (next_id s)), complaints := complaints s @ [c],
          statuses := statuses s @ [r]\<rparr>" "c_id c = next_id s" "st_complaintId r = next_id s"
    "c_username c \<noteq> []" "c_complaintText c \<noteq> []" "c_location c \<noteq> []"
    by blast
  with assms show ?thesis by (simp add: wf_state_extend)
next
  case False
  with submit_complaint_cases [of E b now s]
  have "snd (submit_complaint E now b s) = s\<lparr>next_id := Suc (next_id s)\<rparr>" by blast
  with assms show ?thesis by (auto intro: wf_state_frame)
qed

lemma wf_state_update:
  assumes "wf_state s"
  shows "wf_state (snd (update_status E now date status s))"
proof -
  let ?s' = "snd (update_status E now date status s)"
  from update_status_effect [of E now date status s] obtain rs where e:
    "map c_id (complaints ?s') = map c_id (complaints s)"
    "statuses ?s' = statuses s @ rs"
    "\<forall>r \<in> set rs. st_complaintId r \<in> c_id ` set (complaints s)"
    "next_id s \<le> next_id ?s'"
    "\<forall>x \<in> set (complaints ?s').
       \<exists>y \<in> set (complaints s). c_id x = c_id y \<and> c_username x = c_username y \<and>
         c_complaintText x = c_complaintText y \<and> c_location x = c_location y"
    by blast
  have a: "\<forall>c \<in> set (complaints ?s'). c_username c \<noteq> [] \<and> c_complaintText c \<noteq> [] \<and>
             c_location c \<noteq> [] \<and> c_id c < next_id ?s'"
  proof
    fix x assume "x \<in> set (complaints ?s')"
    with e(5) obtain y where "y \<in> set (complaints s)" "c_id x = c_id y"
      "c_username x = c_username y" "c_complaintText x = c_complaintText y"
      "c_location x = c_location y" by blast
    with assms e(4) show "c_username x \<noteq> [] \<and> c_complaintText x \<noteq> [] \<and>
             c_location x \<noteq> [] \<and> c_id x < next_id ?s'"
      by (auto simp: wf_state_def)
  qed
  have b: "distinct (map c_id (complaints ?s'))"
    using assms e(1) by (simp add: wf_state_def)
  have c: "\<forall>r \<in> set (statuses ?s'). st_complaintId r < next_id ?s'"
  proof
    fix r assume "r \<in> set (statuses ?s')"
    with e(2) have "r \<in> set (statuses s) \<or> r \<in> set rs" by auto
    then show "st_complaintId r < next_id ?s'"
    proof
      assume "r \<in> set (statuses s)"
      with assms e(4) show ?thesis by (auto simp: wf_state_def)
    next
      assume "r \<in> set rs"
      with e(3) obtain y where "y \<in> set (complaints s)" "st_complaintId r = c_id y" by auto
      with assms e(4) show ?thesis by (auto simp: wf_state_def)
    qed
  qed
  from a b c show ?thesis unfolding wf_state_def by blast
qed

lemma wf_state_init: "wf_state init"
  by (simp add: wf_state_def init_def)

lemma wf_state_handle: "wf_state s \<Longrightarrow> wf_state (snd (handle E now req s))"
proof (cases req)
  case (UserSignup b)
  assume "wf_state s"
  then show ?thesis using user_signup_frame [of E b s] UserSignup
    by (auto intro: wf_state_frame)
next
  case (AdminSignup b)
  assume "wf_state s"
  then show ?thesis using admin_signup_frame [of E b s] AdminSignup
    by (auto intro: wf_state_frame)
next
  case (PostEvent b)
  assume "wf_state s"
  then show ?thesis using post_event_frame [of now b s] PostEvent
    by (auto intro: wf_state_frame)
next
  case (PostFeedback b)
  assume "wf_state s"
  then show ?thesis using post_feedback_frame [of now b s] PostFeedback
    by (auto intro: wf_state_frame)
qed (simp_all add: login_frame read_frame wf_state_submit wf_state_update)

lemma reachable_wf_state: "reachable s \<Longrightarrow> wf_state s"
  by (induction rule: reachable.induct) (simp_all add: wf_state_init wf_state_handle)

section \<open>The example state\<close>

lemma example_state_submitted:
  "submit_complaint example_env 1704070000000 example_body init =
     (\<lparr>code = 201, body = JMessage ''Complaint submitted successfully!''\<rparr>, example_state)"
  by (simp add: submit_complaint_def new_id_def init_def example_body_def example_env_def
      validate_complaint_def cast_date_field_def validate_status_def status_enum_def
      submit_roomNo_def example_state_def example_complaint_def example_status_def)

lemma example_state_reachable: "reachable example_state"
proof -
  have "reachable (snd (handle example_env 1704070000000 (SubmitComplaint example_body) init))"
    by (rule reachable_step [OF reachable_init])
  then show ?thesis by (simp add: example_state_submitted)
qed

lemma example_state_wf: "wf_state example_state"
  by (simp add: wf_state_def example_state_def example_complaint_def example_status_def)

section \<open>Submitting a complaint\<close>




text \<open>
  Claim C6. For a submission that is persisted, the stored \<open>roomNo\<close> is null when the
  location is "mess" or "garden", also when a room number was supplied; for every other
  location it is the supplied room number.
\<close>

theorem submit_room_normalised:
  assumes "valid_submission E b"
  shows "\<exists>c. complaints (snd (submit_complaint E now b s)) = complaints s @ [c] \<and>
             (cb_location b = Some ''mess'' \<or> cb_location b = Some ''garden'' \<longrightarrow>
                c_roomNo c = None) \<and>
             (cb_location b \<noteq> Some ''mess'' \<and> cb_location b \<noteq> Some ''garden'' \<longrightarrow>
                c_roomNo c = cb_roomNo b)"
proof -
  from submit_complaint_valid [OF assms, of now s] obtain c r where
    "submit_complaint E now b s =
       (\<lparr>code = 201, body = JMessage ''Complaint submitted successfully!''\<rparr>,
        s\<lparr>next_id := Suc (Suc (next_id s)), complaints := complaints s @ [c],
          statuses := statuses s @ [r]\<rparr>)"
    "c_roomNo c = submit_roomNo b"
    by blast
  then show ?thesis by (intro exI [of _ c]) (simp add: submit_roomNo_def)
qed

theorem submit_room_normalised_witness:
  "valid_submission example_env example_body \<and>
   cb_location example_body = Some ''mess'' \<and> cb_roomNo example_body = Some ''101'' \<and>
   map c_roomNo (complaints (snd (submit_complaint example_env 1704070000000 example_body init)))
     = [None] \<and>
   valid_submission example_env (example_body\<lparr>cb_location := Some ''hostel''\<rparr>) \<and>
   map c_roomNo (complaints (snd (submit_complaint example_env 1704070000000
       (example_body\<lparr>cb_location := Some ''hostel''\<rparr>) init))) = [Some ''101'']"
proof -
  have v: "valid_submission example_env example_body"
    by (simp add: valid_submission_def example_env_def example_body_def)
  have w: "valid_submission example_env (example_body\<lparr>cb_location := Some ''hostel''\<rparr>)"
    by (simp add: valid_submission_def example_env_def example_body_def)
  have l: "cb_location example_body = Some ''mess'' \<and> cb_roomNo example_body = Some ''101''"
    by (simp add: example_body_def)
  from submit_room_normalised [OF v, of 1704070000000 init] l
  have a: "map c_roomNo (complaints (snd (submit_complaint example_env 1704070000000
             example_body init))) = [None]"
    by (auto simp: init_def)
  from submit_room_normalised [OF w, of 1704070000000 init] l
  have b: "map c_roomNo (complaints (snd (submit_complaint example_env 1704070000000
       (example_body\<lparr>cb_location := Some ''hostel''\<rparr>) init))) = [Some ''101'']"
    by (auto simp: init_def)
  from v w l a b show ?thesis by blast
qed

section \<open>Listing complaints\<close>

lemma hydrate_image: "c_image (hydrate c) = c_image c"
  by (simp add: hydrate_def split: option.splits)

text \<open>
  Claim C7. Listing answers 200 with one view per stored complaint, in order: the view
  spreads the hydrated document, whose image is the stored one. A complaint with a stored
  image yields the image field "data:" followed by the content type, ";base64," and the
  base64 encoding of the image bytes; a complaint without an image yields a null image
  field.
\<close>

theorem get_complaints_image:
  "\<exists>views. get_complaints E s = (\<lparr>code = 200, body = JComplaints views\<rparr>, s) \<and>
      map cv_doc views = map hydrate (complaints s) \<and>
      map (\<lambda>v. c_image (cv_doc v)) views = map c_image (complaints s) \<and>
      (\<forall>v \<in> set views.
         (\<forall>img. c_image (cv_doc v) = Some img \<longrightarrow>
            cv_image v =
              Some (''data:'' @ img_contentType img @ '';base64,'' @ toBase64 E (img_data img))) \<and>
         (c_image (cv_doc v) = None \<longrightarrow> cv_image v = None))"
  by (auto simp: get_complaints_def image_uri_def comp_def hydrate_image)

theorem get_complaints_image_witness:
  "\<exists>v1 v2. get_complaints example_env example_gallery =
             (\<lparr>code = 200, body = JComplaints [v1, v2]\<rparr>, example_gallery) \<and>
           c_image (cv_doc v1) = Some \<lparr>img_data = [0x41, 0x42, 0x43],
                                        img_contentType = ''image/png''\<rparr> \<and>
           cv_image v1 = Some ''data:image/png;base64,QUJD'' \<and>
           c_image (cv_doc v2) = None \<and> cv_image v2 = None"
proof -
  from get_complaints_image [of example_env example_gallery]
  obtain views where v:
    "get_complaints example_env example_gallery =
       (\<lparr>code = 200, body = JComplaints views\<rparr>, example_gallery)"
    "map cv_doc views = map hydrate (complaints example_gallery)"
    "\<forall>v \<in> set views.
         (\<forall>img. c_image (cv_doc v) = Some img \<longrightarrow>
            cv_image v =
              Some (''data:'' @ img_contentType img @ '';base64,'' @
                    toBase64 example_env (img_data img))) \<and>
         (c_image (cv_doc v) = None \<longrightarrow> cv_image v = None)"
    by blast
  from v(2) obtain v1 v2 where vs: "views = [v1, v2]"
    "cv_doc v1 = example_complaint\<lparr>c_image := Some \<lparr>img_data = [0x41, 0x42, 0x43],
                                               img_contentType = ''image/png''\<rparr>\<rparr>"
    "cv_doc v2 = example_complaint\<lparr>c_id := 2\<rparr>"
    by (auto simp: example_gallery_def map_eq_Cons_conv hydrate_def example_complaint_def)
  from v(3) vs have
    "cv_image v1 = Some ''data:image/png;base64,QUJD''" "cv_image v2 = None"
    by (simp_all add: example_env_def example_complaint_def)
  with v(1) vs show ?thesis
    by (intro exI [of _ v1] exI [of _ v2]) (simp add: example_complaint_def)
qed

section \<open>Updating a status\<close>

text \<open>
  Claim C2, as amended. In a well-formed state, when the date of the request parses and
  some complaint is stored under that date, and the new status is one of "Yet to Begin",
  "In Progress" and "Resolved", the update is answered with 200: the first stored
  complaint with that date (the only document with its identifier) gets the new status and
  the current time as \<open>updatedAt\<close>, every other complaint is unchanged, and exactly one
  status document is appended, carrying the same status, the complaint's text, location
  and sub-location, its identifier and the current time; the earlier status documents are
  unchanged.
\<close>

theorem update_status_match:
  assumes "wf_state s" and "newDate E date = Some d"
    and "findOne (\<lambda>c. c_date c = d) (complaints s) = Some c"
    and "st \<in> set status_enum"
  shows "\<exists>r. update_status E now date (Some st) s =
           (\<lparr>code = 200, body = JMessage ''Status updated successfully''\<rparr>,
            s\<lparr>complaints :=
                 map (\<lambda>x. if c_id x = c_id c then c\<lparr>c_status := Some st, c_updatedAt := now\<rparr>
                           else x) (complaints s),
              next_id := Suc (next_id s),
              statuses := statuses s @ [r]\<rparr>) \<and>
          st_status r = st \<and> st_location r = c_location c \<and>
          st_subLocation r = c_subLocation c \<and> st_complaintText r = c_complaintText c \<and>
          st_complaintId r = c_id c \<and> st_updatedAt r = now \<and>
          c \<in> set (complaints s) \<and> c_date c = d \<and>
          (\<forall>x \<in> set (complaints s). x \<noteq> c \<longrightarrow> c_id x \<noteq> c_id c)"
proof -
  let ?r = "\<lparr>st_id = next_id s, st_complaintId = c_id c,
             st_complaintText = c_complaintText c, st_location = c_location c,
             st_subLocation = c_subLocation c, st_status = st, st_updatedAt = now\<rparr>"
  from assms(3) have mem: "c \<in> set (complaints s)" "c_date c = d"
    using findOne_SomeD [of "\<lambda>c. c_date c = d" "complaints s" c] by simp_all
  from assms(1) have "distinct (map c_id (complaints s))" by (simp add: wf_state_def)
  then have "inj_on c_id (set (complaints s))" by (simp add: distinct_map)
  with mem(1) have uniq: "\<forall>x \<in> set (complaints s). x \<noteq> c \<longrightarrow> c_id x \<noteq> c_id c"
    by (auto dest: inj_onD)
  from update_status_accepted [OF assms, of now] mem uniq
  show ?thesis by (intro exI [of _ ?r]) simp
qed

theorem update_status_match_witness:
  "wf_state example_state \<and>
   newDate example_env ''2024-01-01'' = Some 1704067200000 \<and>
   findOne (\<lambda>c. c_date c = 1704067200000) (complaints example_state) = Some example_complaint \<and>
   ''In Progress'' \<in> set status_enum \<and>
   (\<exists>r. update_status example_env 1704080000000 ''2024-01-01'' (Some ''In Progress'')
          example_state =
        (\<lparr>code = 200, body = JMessage ''Status updated successfully''\<rparr>,
         example_state
           \<lparr>complaints := [example_complaint\<lparr>c_status := Some ''In Progress'',
                                             c_updatedAt := 1704080000000\<rparr>],
            next_id := 3,
            statuses := [example_status, r]\<rparr>) \<and>
        st_status r = ''In Progress'' \<and> st_complaintId r = 0)"
proof -
  have f: "findOne (\<lambda>c. c_date c = 1704067200000) (complaints example_state) =
             Some example_complaint"
    by (simp add: findOne_def example_state_def example_complaint_def)
  have d: "newDate example_env ''2024-01-01'' = Some 1704067200000"
    by (simp add: example_env_def)
  have e: "''In Progress'' \<in> set status_enum" by (simp add: status_enum_def)
  from update_status_match [OF example_state_wf d f e, of 1704080000000]
  obtain r where
    "update_status example_env 1704080000000 ''2024-01-01'' (Some ''In Progress'')
          example_state =
        (\<lparr>code = 200, body = JMessage ''Status updated successfully''\<rparr>,
         example_state
           \<lparr>complaints := map (\<lambda>x. if c_id x = c_id example_complaint
                     then example_complaint\<lparr>c_status := Some ''In Progress'',
                                            c_updatedAt := 1704080000000\<rparr>
                     else x) (complaints example_state),
            next_id := Suc (next_id example_state),
            statuses := statuses example_state @ [r]\<rparr>)"
    "st_status r = ''In Progress''" "st_complaintId r = c_id example_complaint"
    by blast
  then have "update_status example_env 1704080000000 ''2024-01-01'' (Some ''In Progress'')
          example_state =
        (\<lparr>code = 200, body = JMessage ''Status updated successfully''\<rparr>,
         example_state
           \<lparr>complaints := [example_complaint\<lparr>c_status := Some ''In Progress'',
                                             c_updatedAt := 1704080000000\<rparr>],
            next_id := 3,
            statuses := [example_status, r]\<rparr>) \<and>
        st_status r = ''In Progress'' \<and> st_complaintId r = 0"
    by (simp add: example_state_def example_complaint_def)
  with example_state_wf d f e show ?thesis by blast
qed

text \<open>
  Claim C2 as stated covers every new status. With the status "Done", outside the enum
  of the status schema, a complaint is stored under the given date and yet no status
  document is appended.
\<close>

theorem update_status_done_counterexample:
  "map c_date (complaints example_state) = [1704067200000] \<and>
   newDate example_env ''2024-01-01'' = Some 1704067200000 \<and>
   statuses example_state = [example_status] \<and>
   statuses (snd (update_status example_env 1704080000000 ''2024-01-01'' (Some ''Done'')
                    example_state)) = [example_status]"
  by (simp add: update_status_def findOne_def save_complaint_def new_id_def
      validate_status_def status_enum_def example_state_def example_complaint_def
      example_env_def)

text \<open>
  Claim C3, as amended. When the date of the request parses to a valid date and no stored
  complaint has that date, the update is answered with 404 and the state is unchanged.
  When the date does not parse, the lookup itself fails: the answer is 500, and the state
  is unchanged as well.
\<close>

theorem update_status_not_found:
  "(newDate E date = Some d \<and> (\<forall>c \<in> set (complaints s). c_date c \<noteq> d) \<longrightarrow>
      update_status E now date status s =
        (\<lparr>code = 404, body = JMessage ''Complaint not found''\<rparr>, s)) \<and>
   (newDate E date = None \<longrightarrow>
      update_status E now date status s =
        (\<lparr>code = 500, body = JMessage ''Failed to update status''\<rparr>, s))"
  using update_status_no_match [of E date d s now status]
    update_status_unparseable [of E date now status s]
  by blast

theorem update_status_not_found_witness:
  "newDate example_env ''2024-01-02'' = Some 1704153600000 \<and>
   map c_date (complaints example_state) = [1704067200000] \<and>
   update_status example_env 1704080000000 ''2024-01-02'' (Some ''Resolved'') example_state =
     (\<lparr>code = 404, body = JMessage ''Complaint not found''\<rparr>, example_state) \<and>
   newDate example_env ''next week'' = None \<and>
   update_status example_env 1704080000000 ''next week'' (Some ''Resolved'') example_state =
     (\<lparr>code = 500, body = JMessage ''Failed to update status''\<rparr>, example_state)"
proof -
  have d: "newDate example_env ''2024-01-02'' = Some 1704153600000"
    by (simp add: example_env_def)
  have n: "\<forall>c \<in> set (complaints example_state). c_date c \<noteq> 1704153600000"
    by (simp add: example_state_def example_complaint_def)
  have u: "newDate example_env ''next week'' = None"
    by (simp add: example_env_def)
  from update_status_not_found
         [of example_env "''2024-01-02''" 1704153600000 example_state 1704080000000
             "Some ''Resolved''"] d n
  have a: "update_status example_env 1704080000000 ''2024-01-02'' (Some ''Resolved'')
             example_state =
           (\<lparr>code = 404, body = JMessage ''Complaint not found''\<rparr>, example_state)"
    by blast
  from update_status_not_found
         [of example_env "''next week''" 0 example_state 1704080000000 "Some ''Resolved''"] u
  have b: "update_status example_env 1704080000000 ''next week'' (Some ''Resolved'')
             example_state =
           (\<lparr>code = 500, body = JMessage ''Failed to update status''\<rparr>, example_state)"
    by blast
  have m: "map c_date (complaints example_state) = [1704067200000]"
    by (simp add: example_state_def example_complaint_def)
  from d m a u b show ?thesis by blast
qed

text \<open>
  Claim C3 as stated promises NotFound whenever no complaint has the given date. For the
  date "yesterday", which \<open>new Date\<close> does not parse, no complaint matches and the answer
  is 500.
\<close>

theorem update_status_unparseable_counterexample:
  "newDate example_env ''yesterday'' = None \<and>
   update_status example_env 1704080000000 ''yesterday'' (Some ''Resolved'') example_state =
     (\<lparr>code = 500, body = JMessage ''Failed to update status''\<rparr>, example_state)"
  by (simp add: update_status_def example_env_def)

text \<open>
  Claim C4, as amended. On a matching complaint of a well-formed state, an update to a
  status of the enum succeeds whatever the complaint's current status is: no transition
  is checked, and the history grows by the new value. A string outside the enum is
  rejected when the status document is validated: the answer is 500 and no status
  document is appended.
\<close>

theorem update_status_enum_gate:
  assumes "wf_state s" and "newDate E date = Some d"
    and "findOne (\<lambda>c. c_date c = d) (complaints s) = Some c"
  shows "(st \<in> set status_enum \<longrightarrow>
            fst (update_status E now date (Some st) s) =
              \<lparr>code = 200, body = JMessage ''Status updated successfully''\<rparr> \<and>
            map st_status (statuses (snd (update_status E now date (Some st) s))) =
              map st_status (statuses s) @ [st]) \<and>
         (st \<notin> set status_enum \<longrightarrow>
            fst (update_status E now date (Some st) s) =
              \<lparr>code = 500, body = JMessage ''Failed to update status''\<rparr> \<and>
            statuses (snd (update_status E now date (Some st) s)) = statuses s)"
proof (intro conjI impI)
  assume "st \<in> set status_enum"
  from update_status_accepted [OF assms this, of now]
  show "fst (update_status E now date (Some st) s) =
          \<lparr>code = 200, body = JMessage ''Status updated successfully''\<rparr>"
    and "map st_status (statuses (snd (update_status E now date (Some st) s))) =
              map st_status (statuses s) @ [st]"
    by simp_all
next
  assume "st \<notin> set status_enum"
  then have "Some st = None \<or> (\<exists>st'. Some st = Some st' \<and> st' \<notin> set status_enum)" by simp
  from update_status_rejected [OF assms this, of now]
  show "fst (update_status E now date (Some st) s) =
          \<lparr>code = 500, body = JMessage ''Failed to update status''\<rparr>"
    and "statuses (snd (update_status E now date (Some st) s)) = statuses s"
    by simp_all
qed

theorem update_status_enum_gate_witness:
  "wf_state example_state \<and>
   newDate example_env ''2024-01-01'' = Some 1704067200000 \<and>
   findOne (\<lambda>c. c_date c = 1704067200000) (complaints example_state) = Some example_complaint \<and>
   ''Resolved'' \<in> set status_enum \<and> ''Rejected'' \<notin> set status_enum \<and>
   code (fst (update_status example_env 1704080000000 ''2024-01-01'' (Some ''Resolved'')
                example_state)) = 200 \<and>
   map st_status (statuses (snd (update_status example_env 1704080000000 ''2024-01-01''
                (Some ''Resolved'') example_state))) = [''Yet to Begin'', ''Resolved''] \<and>
   code (fst (update_status example_env 1704080000000 ''2024-01-01'' (Some ''Rejected'')
                example_state)) = 500 \<and>
   statuses (snd (update_status example_env 1704080000000 ''2024-01-01'' (Some ''Rejected'')
                example_state)) = [example_status]"
proof -
  have f: "findOne (\<lambda>c. c_date c = 1704067200000) (complaints example_state) =
             Some example_complaint"
    by (simp add: findOne_def example_state_def example_complaint_def)
  have d: "newDate example_env ''2024-01-01'' = Some 1704067200000"
    by (simp add: example_env_def)
  have e: "''Resolved'' \<in> set status_enum" "''Rejected'' \<notin> set status_enum"
    by (simp_all add: status_enum_def)
  have s: "statuses example_state = [example_status]"
    "map st_status (statuses example_state) = [''Yet to Begin'']"
    by (simp_all add: example_state_def example_status_def)
  from update_status_enum_gate [OF example_state_wf d f, of "''Resolved''" 1704080000000] e(1) s
  have a: "code (fst (update_status example_env 1704080000000 ''2024-01-01'' (Some ''Resolved'')
                example_state)) = 200 \<and>
   map st_status (statuses (snd (update_status example_env 1704080000000 ''2024-01-01''
                (Some ''Resolved'') example_state))) = [''Yet to Begin'', ''Resolved'']"
    by simp
  from update_status_enum_gate [OF example_state_wf d f, of "''Rejected''" 1704080000000] e(2) s
  have b: "code (fst (update_status example_env 1704080000000 ''2024-01-01'' (Some ''Rejected'')
                example_state)) = 500 \<and>
   statuses (snd (update_status example_env 1704080000000 ''2024-01-01'' (Some ''Rejected'')
                example_state)) = [example_status]"
    by simp
  from example_state_wf d f e a b show ?thesis by blast
qed

text \<open>
  Claim C4 as stated has every string succeed. The status "Closed" on a matching
  complaint is answered with 500.
\<close>

theorem update_status_closed_counterexample:
  "map c_date (complaints example_state) = [1704067200000] \<and>
   newDate example_env ''2024-01-01'' = Some 1704067200000 \<and>
   fst (update_status example_env 1704080000000 ''2024-01-01'' (Some ''Closed'') example_state) =
     \<lparr>code = 500, body = JMessage ''Failed to update status''\<rparr>"
  by (simp add: update_status_def findOne_def save_complaint_def new_id_def
      validate_status_def status_enum_def example_state_def example_complaint_def
      example_env_def)

section \<open>The history invariant\<close>

lemma status_invariant_frame:
  assumes "status_invariant s" and "complaints s' = complaints s" and "statuses s' = statuses s"
  shows "status_invariant s'"
  using assms by (simp add: status_invariant_def)

lemma status_invariant_submit:
  assumes "status_invariant s"
  shows "status_invariant (snd (submit_complaint E now b s))"
proof (cases "valid_submission E b")
  case True
  with submit_complaint_cases [of E b now s] obtain c r where
    "snd (submit_complaint E now b s) =
        s\<lparr>next_id := Suc (Suc (next_id s)), complaints := complaints s @ [c],
          statuses := statuses s @ [r]\<rparr>" "c_id c = next_id s" "st_complaintId r = next_id s"
    by blast
  with assms show ?thesis by (auto simp: status_invariant_def)
next
  case False
  with submit_complaint_cases [of E b now s]
  have "snd (submit_complaint E now b s) = s\<lparr>next_id := Suc (next_id s)\<rparr>" by blast
  with assms show ?thesis by (simp add: status_invariant_def)
qed

lemma status_invariant_update:
  assumes "status_invariant s"
  shows "status_invariant (snd (update_status E now date status s))"
proof -
  let ?s' = "snd (update_status E now date status s)"
  from update_status_effect [of E now date status s] obtain rs where e:
    "map c_id (complaints ?s') = map c_id (complaints s)"
    "statuses ?s' = statuses s @ rs"
    by blast
  from e(1) have ids: "c_id ` set (complaints ?s') = c_id ` set (complaints s)"
    by (metis set_map)
  show ?thesis
    unfolding status_invariant_def
  proof
    fix x assume "x \<in> set (complaints ?s')"
    with ids obtain y where y: "y \<in> set (complaints s)" "c_id y = c_id x"
      by (metis imageE imageI)
    with assms obtain r where "r \<in> set (statuses s)" "st_complaintId r = c_id y"
      unfolding status_invariant_def by blast
    with e(2) y(2) show "\<exists>r \<in> set (statuses ?s'). st_complaintId r = c_id x"
      by auto
  qed
qed

text \<open>
  Claim C5. The invariant "every stored complaint is referenced by at least one status
  document" holds in the empty store and is preserved by every request the server handles.
\<close>

theorem status_invariant_preserved:
  "status_invariant init \<and>
   (status_invariant s \<longrightarrow> status_invariant (snd (handle E now req s)))"
proof
  show "status_invariant init" by (simp add: status_invariant_def init_def)
  show "status_invariant s \<longrightarrow> status_invariant (snd (handle E now req s))"
  proof
    assume inv: "status_invariant s"
    show "status_invariant (snd (handle E now req s))"
    proof (cases req)
      case (UserSignup b)
      with inv user_signup_frame [of E b s] show ?thesis
        by (auto intro: status_invariant_frame)
    next
      case (AdminSignup b)
      with inv admin_signup_frame [of E b s] show ?thesis
        by (auto intro: status_invariant_frame)
    next
      case (SubmitComplaint b)
      with inv show ?thesis by (simp add: status_invariant_submit)
    next
      case (UpdateStatus date status)
      with inv show ?thesis by (simp add: status_invariant_update)
    next
      case (PostEvent b)
      with inv post_event_frame [of now b s] show ?thesis
        by (auto intro: status_invariant_frame)
    next
      case (PostFeedback b)
      with inv post_feedback_frame [of now b s] show ?thesis
        by (auto intro: status_invariant_frame)
    qed (simp_all add: inv login_frame read_frame)
  qed
qed

theorem status_invariant_preserved_witness:
  "status_invariant example_state \<and>
   complaints (snd (handle example_env 1704080000000
                      (UpdateStatus ''2024-01-01'' (Some ''Withdrawn'')) example_state)) =
     [example_complaint\<lparr>c_status := Some ''Withdrawn'', c_updatedAt := 1704080000000\<rparr>] \<and>
   status_invariant (snd (handle example_env 1704080000000
                      (UpdateStatus ''2024-01-01'' (Some ''Withdrawn'')) example_state))"
proof -
  have i: "status_invariant example_state"
    by (simp add: status_invariant_def example_state_def example_complaint_def
        example_status_def)
  have c: "complaints (snd (handle example_env 1704080000000
                      (UpdateStatus ''2024-01-01'' (Some ''Withdrawn'')) example_state)) =
     [example_complaint\<lparr>c_status := Some ''Withdrawn'', c_updatedAt := 1704080000000\<rparr>]"
    by (simp add: update_status_def findOne_def save_complaint_def new_id_def
      validate_status_def status_enum_def example_state_def example_complaint_def
      example_env_def)
  from status_invariant_preserved
         [of example_state example_env 1704080000000
             "UpdateStatus ''2024-01-01'' (Some ''Withdrawn'')"] i
  have "status_invariant (snd (handle example_env 1704080000000
                      (UpdateStatus ''2024-01-01'' (Some ''Withdrawn'')) example_state))"
    by blast
  with i c show ?thesis by blast
qed

section \<open>Signing up\<close>

lemma returned_None: "returned E docs = None \<longleftrightarrow> docs = []"
  by (simp add: returned_def)


lemma clause_plain: "plain v \<Longrightarrow> clause E v = Some (\<lambda>stored. v = JStr stored)"
  by (cases v) (auto simp: fun_eq_iff)

lemma findOne_or_plain:
  assumes "plain (sb_email b)" and "plain (sb_username b)"
  shows "findOne_or E b coll =
         Inr (returned E (filter (\<lambda>a. sb_email b = JStr (acc_email a) \<or>
                                       sb_username b = JStr (acc_username a)) coll))"
  using assms by (simp add: findOne_or_def clause_plain)


lemma findOne_or_no_match:
  assumes "plain (sb_email b)" and "plain (sb_username b)"
    and "findOne_or E b coll = Inr None"
  shows "\<forall>x \<in> set coll. sb_email b \<noteq> JStr (acc_email x) \<and> sb_username b \<noteq> JStr (acc_username x)"
proof -
  from assms(3) findOne_or_plain [OF assms(1,2), of E coll]
  have "filter (\<lambda>a. sb_email b = JStr (acc_email a) \<or>
                     sb_username b = JStr (acc_username a)) coll = []"
    by (simp add: returned_None)
  then show ?thesis by (auto simp: filter_empty_conv)
qed




lemma admin_signup_conflict:
  "truthy (sb_username b) \<Longrightarrow> truthy (sb_email b) \<Longrightarrow> truthy (sb_password b) \<Longrightarrow>
   js_endsWith (sb_email b) ''@admin.com'' = Inr True \<Longrightarrow>
   findOne_or E b (admins s) = Inr (Some a) \<Longrightarrow>
   admin_signup E b s = (\<lparr>code = 400, body = JError (conflict_message a (sb_email b))\<rparr>, s)"
  by (simp add: admin_signup_def)

lemma save_account_fresh:
  assumes "findOne_or E b coll = Inr None"
    and "sb_username b = JStr u" and "sb_email b = JStr e" and "u \<noteq> []" and "e \<noteq> []"
    and "h \<noteq> []"
  shows "save_account E coll oid (sb_username b) (sb_email b) h =
         Inr (coll @ [\<lparr>acc_id = oid, acc_username = u, acc_email = e, acc_password = h\<rparr>])"
proof -
  from assms(2,3) have "plain (sb_email b)" "plain (sb_username b)" by simp_all
  from findOne_or_no_match [OF this assms(1)] assms(2,3)
  have "\<not> (\<exists>a \<in> set coll. acc_username a = u \<or> acc_email a = e)" by auto
  with assms(2-) show ?thesis by (simp add: save_account_def)
qed






text \<open>
  Claim C9, as amended. An admin signup with a missing username, email or password (absent,
  null, empty, 0 or false: what \<open>!x\<close> rejects) is answered with 400
  "All fields are required", whatever else holds. With the three fields present and an
  email that is a string not ending with "@admin.com" it is answered with 400
  "Email must end with @admin.com"; with an email that is present but not a string, the
  suffix test throws and the answer is 500. With both checks passed, the uniqueness lookup
  decides: a match is answered with the 400 conflict; with no match, a username and a
  password that are strings (and a hash that is not empty) give 201 and the account
  appended to the admins, and a password that is not a string gives 500. A 201 is given
  only when both checks passed and the lookup found nothing; without a 201 the admins are
  as they were, and the users are never touched.
\<close>

theorem admin_signup_checks:
  "(\<not> truthy (sb_username b) \<or> \<not> truthy (sb_email b) \<or> \<not> truthy (sb_password b) \<longrightarrow>
      admin_signup E b s = (\<lparr>code = 400, body = JError ''All fields are required''\<rparr>, s)) \<and>
   (truthy (sb_username b) \<and> sb_email b = JStr e \<and> e \<noteq> [] \<and> truthy (sb_password b) \<and>
    \<not> endsWith e ''@admin.com'' \<longrightarrow>
      admin_signup E b s =
        (\<lparr>code = 400, body = JError ''Email must end with @admin.com''\<rparr>, s)) \<and>
   (truthy (sb_username b) \<and> truthy (sb_email b) \<and> truthy (sb_password b) \<and>
    (\<forall>v. sb_email b \<noteq> JStr v) \<longrightarrow>
      admin_signup E b s =
        (\<lparr>code = 500, body = JError ''Admin signup failed. Please try again.''\<rparr>, s)) \<and>
   (truthy (sb_username b) \<and> sb_email b = JStr e \<and> e \<noteq> [] \<and> truthy (sb_password b) \<and>
    endsWith e ''@admin.com'' \<longrightarrow>
      (\<forall>a. findOne_or E b (admins s) = Inr (Some a) \<longrightarrow>
         admin_signup E b s =
           (\<lparr>code = 400, body = JError (conflict_message a (sb_email b))\<rparr>, s)) \<and>
      (findOne_or E b (admins s) = Inr None \<and> sb_username b = JStr u \<and>
       sb_password b = JStr p \<and> bcrypt_hash E p \<noteq> [] \<longrightarrow>
         admin_signup E b s =
           (\<lparr>code = 201, body = JMessage ''Admin signup successful!''\<rparr>,
            s\<lparr>next_id := Suc (next_id s),
              admins := admins s @ [\<lparr>acc_id = next_id s, acc_username = u, acc_email = e,
                                      acc_password = bcrypt_hash E p\<rparr>]\<rparr>)) \<and>
      (findOne_or E b (admins s) = Inr None \<and> (\<forall>v. sb_password b \<noteq> JStr v) \<longrightarrow>
         admin_signup E b s =
           (\<lparr>code = 500, body = JError ''Admin signup failed. Please try again.''\<rparr>, s))) \<and>
   (code (fst (admin_signup E b s)) = 201 \<longrightarrow>
      truthy (sb_username b) \<and> truthy (sb_email b) \<and> truthy (sb_password b) \<and>
      js_endsWith (sb_email b) ''@admin.com'' = Inr True \<and>
      findOne_or E b (admins s) = Inr None) \<and>
   (code (fst (admin_signup E b s)) = 201 \<or> admins (snd (admin_signup E b s)) = admins s) \<and>
   users (snd (admin_signup E b s)) = users s"
proof (intro conjI impI allI; (elim conjE)?)
  assume "\<not> truthy (sb_username b) \<or> \<not> truthy (sb_email b) \<or> \<not> truthy (sb_password b)"
  then show "admin_signup E b s =
      (\<lparr>code = 400, body = JError ''All fields are required''\<rparr>, s)"
    by (auto simp: admin_signup_def)
next
  assume "truthy (sb_username b)" "sb_email b = JStr e" "e \<noteq> []" "truthy (sb_password b)"
    "\<not> endsWith e ''@admin.com''"
  then show "admin_signup E b s =
        (\<lparr>code = 400, body = JError ''Email must end with @admin.com''\<rparr>, s)"
    by (simp add: admin_signup_def)
next
  assume t: "truthy (sb_username b)" "truthy (sb_email b)" "truthy (sb_password b)"
    and n: "\<forall>v. sb_email b \<noteq> JStr v"
  from n have "js_endsWith (sb_email b) ''@admin.com'' = Inl TypeError"
    by (cases "sb_email b") simp_all
  with t show "admin_signup E b s =
        (\<lparr>code = 500, body = JError ''Admin signup failed. Please try again.''\<rparr>, s)"
    by (simp add: admin_signup_def)
next
  fix a
  assume "truthy (sb_username b)" "sb_email b = JStr e" "e \<noteq> []" "truthy (sb_password b)"
    "endsWith e ''@admin.com''" "findOne_or E b (admins s) = Inr (Some a)"
  then show "admin_signup E b s =
           (\<lparr>code = 400, body = JError (conflict_message a (sb_email b))\<rparr>, s)"
    by (simp add: admin_signup_conflict)
next
  assume f: "truthy (sb_username b)" "sb_email b = JStr e" "e \<noteq> []" "truthy (sb_password b)"
    "endsWith e ''@admin.com''"
    and n: "findOne_or E b (admins s) = Inr None" and u: "sb_username b = JStr u"
    and p: "sb_password b = JStr p" and h: "bcrypt_hash E p \<noteq> []"
  from f(1) u have "u \<noteq> []" by simp
  from save_account_fresh [OF n u f(2) this f(3) h, of "next_id s"]
  show "admin_signup E b s =
           (\<lparr>code = 201, body = JMessage ''Admin signup successful!''\<rparr>,
            s\<lparr>next_id := Suc (next_id s),
              admins := admins s @ [\<lparr>acc_id = next_id s, acc_username = u, acc_email = e,
                                      acc_password = bcrypt_hash E p\<rparr>]\<rparr>)"
    using f n p by (simp add: admin_signup_def new_id_def)
next
  assume f: "truthy (sb_username b)" "sb_email b = JStr e" "e \<noteq> []" "truthy (sb_password b)"
    "endsWith e ''@admin.com''"
    and n: "findOne_or E b (admins s) = Inr None" and p: "\<forall>v. sb_password b \<noteq> JStr v"
  from p have "hash_password E (sb_password b) = Inl IllegalArguments"
    by (cases "sb_password b") simp_all
  with f n show "admin_signup E b s =
           (\<lparr>code = 500, body = JError ''Admin signup failed. Please try again.''\<rparr>, s)"
    by (simp add: admin_signup_def)
next
  show "code (fst (admin_signup E b s)) = 201 \<or>
        admins (snd (admin_signup E b s)) = admins s"
    by (simp add: admin_signup_def new_id_def split: option.splits sum.splits bool.splits)
next
  assume ok: "code (fst (admin_signup E b s)) = 201"
  then show "truthy (sb_username b)" "truthy (sb_email b)" "truthy (sb_password b)"
    "js_endsWith (sb_email b) ''@admin.com'' = Inr True"
    "findOne_or E b (admins s) = Inr None"
    by (auto simp: admin_signup_def split: if_splits option.splits sum.splits bool.splits)
next
  show "users (snd (admin_signup E b s)) = users s"
    by (simp add: admin_signup_frame)
qed

theorem admin_signup_checks_witness:
  "admin_signup example_env
     \<lparr>sb_username = JStr ''x'', sb_email = JStr ''x@admin.com'', sb_password = JStr []\<rparr>
     example_accounts =
     (\<lparr>code = 400, body = JError ''All fields are required''\<rparr>, example_accounts) \<and>
   admin_signup example_env
     \<lparr>sb_username = JStr ''x'', sb_email = JStr ''x@example.com'', sb_password = JStr ''pw''\<rparr>
     example_accounts =
     (\<lparr>code = 400, body = JError ''Email must end with @admin.com''\<rparr>, example_accounts) \<and>
   admin_signup example_env
     \<lparr>sb_username = JStr ''x'', sb_email = JBool True, sb_password = JStr ''pw''\<rparr>
     example_accounts =
     (\<lparr>code = 500, body = JError ''Admin signup failed. Please try again.''\<rparr>,
      example_accounts) \<and>
   admin_signup example_env
     \<lparr>sb_username = JStr ''x'', sb_email = JStr ''x@admin.com'', sb_password = JStr ''pw''\<rparr>
     example_accounts =
     (\<lparr>code = 201, body = JMessage ''Admin signup successful!''\<rparr>,
      example_accounts
        \<lparr>next_id := 4,
         admins := admins example_accounts @
           [\<lparr>acc_id = 3, acc_username = ''x'', acc_email = ''x@admin.com'',
             acc_password = ''$2a$10$pw''\<rparr>]\<rparr>)"
proof -
  let ?b1 = "\<lparr>sb_username = JStr ''x'', sb_email = JStr ''x@admin.com'',
              sb_password = JStr []\<rparr>"
  let ?b2 = "\<lparr>sb_username = JStr ''x'', sb_email = JStr ''x@example.com'',
              sb_password = JStr ''pw''\<rparr>"
  let ?b3 = "\<lparr>sb_username = JStr ''x'', sb_email = JStr ''x@admin.com'',
              sb_password = JStr ''pw''\<rparr>"
  let ?b4 = "\<lparr>sb_username = JStr ''x'', sb_email = JBool True, sb_password = JStr ''pw''\<rparr>"
  have h1: "\<not> truthy (sb_username ?b1) \<or> \<not> truthy (sb_email ?b1) \<or> \<not> truthy (sb_password ?b1)"
    by simp
  have a: "admin_signup example_env ?b1 example_accounts =
     (\<lparr>code = 400, body = JError ''All fields are required''\<rparr>, example_accounts)"
    using admin_signup_checks [where b = ?b1 and E = example_env and s = example_accounts
                                 and e = "''x@admin.com''" and u = "''x''" and p = "[]"] h1
    by blast
  have h2: "truthy (sb_username ?b2) \<and> sb_email ?b2 = JStr ''x@example.com'' \<and>
            ''x@example.com'' \<noteq> [] \<and> truthy (sb_password ?b2) \<and>
            \<not> endsWith ''x@example.com'' ''@admin.com''"
    by (simp add: endsWith_def)
  have b: "admin_signup example_env ?b2 example_accounts =
     (\<lparr>code = 400, body = JError ''Email must end with @admin.com''\<rparr>, example_accounts)"
    using admin_signup_checks [where b = ?b2 and E = example_env and s = example_accounts
                                 and e = "''x@example.com''" and u = "''x''" and p = "''pw''"] h2
    by blast
  have h4: "truthy (sb_username ?b4) \<and> truthy (sb_email ?b4) \<and> truthy (sb_password ?b4) \<and>
            (\<forall>v. sb_email ?b4 \<noteq> JStr v)"
    by simp
  have d: "admin_signup example_env ?b4 example_accounts =
     (\<lparr>code = 500, body = JError ''Admin signup failed. Please try again.''\<rparr>,
      example_accounts)"
    using admin_signup_checks [where b = ?b4 and E = example_env and s = example_accounts
                                 and e = "[]" and u = "''x''" and p = "''pw''"] h4
    by blast
  have h3: "truthy (sb_username ?b3) \<and> sb_email ?b3 = JStr ''x@admin.com'' \<and>
            ''x@admin.com'' \<noteq> [] \<and> truthy (sb_password ?b3) \<and>
            endsWith ''x@admin.com'' ''@admin.com''"
    by (simp add: endsWith_def)
  have n: "findOne_or example_env ?b3 (admins example_accounts) = Inr None \<and>
           sb_username ?b3 = JStr ''x'' \<and> sb_password ?b3 = JStr ''pw'' \<and>
           bcrypt_hash example_env ''pw'' \<noteq> []"
    by (simp add: findOne_or_def returned_def example_accounts_def example_env_def)
  have "admin_signup example_env ?b3 example_accounts =
     (\<lparr>code = 201, body = JMessage ''Admin signup successful!''\<rparr>,
      example_accounts
        \<lparr>next_id := Suc (next_id example_accounts),
         admins := admins example_accounts @
           [\<lparr>acc_id = next_id example_accounts, acc_username = ''x'',
             acc_email = ''x@admin.com'',
             acc_password = bcrypt_hash example_env ''pw''\<rparr>]\<rparr>)"
    using admin_signup_checks [where b = ?b3 and E = example_env and s = example_accounts
                                 and e = "''x@admin.com''" and u = "''x''" and p = "''pw''"] h3 n
    by blast
  moreover have "next_id example_accounts = 3" "bcrypt_hash example_env ''pw'' = ''$2a$10$pw''"
    by (simp_all add: example_accounts_def example_env_def)
  ultimately have c: "admin_signup example_env ?b3 example_accounts =
     (\<lparr>code = 201, body = JMessage ''Admin signup successful!''\<rparr>,
      example_accounts
        \<lparr>next_id := 4,
         admins := admins example_accounts @
           [\<lparr>acc_id = 3, acc_username = ''x'', acc_email = ''x@admin.com'',
             acc_password = ''$2a$10$pw''\<rparr>]\<rparr>)"
    by simp
  from a b d c show ?thesis by blast
qed

text \<open>
  Claim C9 as stated has every request with three fields and an email without the suffix
  answered with BadRequest. With the number 5 as email the three fields are truthy, and
  the answer is 500.
\<close>

theorem admin_signup_number_email_counterexample:
  "truthy (JStr ''x'') \<and> truthy (JNum 5) \<and> truthy (JStr ''pw'') \<and>
   admin_signup example_env
     \<lparr>sb_username = JStr ''x'', sb_email = JNum 5, sb_password = JStr ''pw''\<rparr>
     example_accounts =
     (\<lparr>code = 500, body = JError ''Admin signup failed. Please try again.''\<rparr>,
      example_accounts)"
  by (simp add: admin_signup_def)







end
